theory Spec2Isabelle
  imports Main "HOL-Library.Word"
begin

section \<open>Bytes, Python errors and the struct module\<close>

text \<open>
  A Python \<open>bytes\<close> object is a list of 8-bit words. Every exception the decoders of
  \<open>pywhisker.py\<close> can raise is a value of \<open>py_error\<close>; a function that may raise
  returns \<open>py_error + 'a\<close>, with \<open>Inl\<close> for the exception.
\<close>

type_synonym byte = "8 word"

datatype py_error =
    StructError
  | IndexError
  | ValueError
  | TypeError
  | UnicodeDecodeError
  | AttributeError
  | OverflowError

text \<open>Sequencing: an exception raised by the first step ends the computation.\<close>

definition bind_err :: "py_error + 'a \<Rightarrow> ('a \<Rightarrow> py_error + 'b) \<Rightarrow> py_error + 'b" where
  "bind_err r k = (case r of Inl e \<Rightarrow> Inl e | Inr v \<Rightarrow> k v)"

text \<open>\<open>io.BytesIO.read(n)\<close>: up to \<open>n\<close> bytes, fewer when the stream is shorter,
  never an error. The stream is the list of bytes not yet read.\<close>

definition read :: "nat \<Rightarrow> byte list \<Rightarrow> byte list \<times> byte list" where
  "read n stream = (take n stream, drop n stream)"

text \<open>Little-endian and big-endian unsigned values of a byte string.\<close>

fun le_nat :: "byte list \<Rightarrow> nat" where
  "le_nat [] = 0"
| "le_nat (b # bs) = unat b + 256 * le_nat bs"

definition be_nat :: "byte list \<Rightarrow> nat" where
  "be_nat bs = le_nat (rev bs)"

text \<open>\<open>struct.unpack(fmt, data)[0]\<close> for the one-field formats \<open><B\<close>, \<open><H\<close>,
  \<open><L\<close>, \<open><Q\<close> (little-endian, \<open>n\<close> bytes) and \<open>>H\<close> (big-endian): struct.error
  unless the buffer has exactly the size of the format.\<close>

definition unpack_le :: "nat \<Rightarrow> byte list \<Rightarrow> py_error + nat" where
  "unpack_le n data = (if length data = n then Inr (le_nat data) else Inl StructError)"

definition unpack_be :: "nat \<Rightarrow> byte list \<Rightarrow> py_error + nat" where
  "unpack_be n data = (if length data = n then Inr (be_nat data) else Inl StructError)"

text \<open>\<open>struct.unpack('<HB', data)\<close>: a 16-bit little-endian value and one byte.\<close>

definition unpack_HB :: "byte list \<Rightarrow> py_error + nat \<times> nat" where
  "unpack_HB data =
     (if length data = 3 then Inr (le_nat (take 2 data), unat (data ! 2))
      else Inl StructError)"

text \<open>Python slicing \<open>data[i:j]\<close> with \<open>0 \<le> i \<le> j\<close>.\<close>

definition slice :: "'a list \<Rightarrow> nat \<Rightarrow> nat \<Rightarrow> 'a list" where
  "slice data i j = take (j - i) (drop i data)"

section \<open>Strings: hex, rjust, hexlify\<close>

definition hexchar :: "nat \<Rightarrow> char" where
  "hexchar d = ''0123456789abcdef'' ! d"

text \<open>\<open>hex(n)[2:]\<close> for a non-negative \<open>n\<close>: lower-case digits, no leading zero.\<close>

function hex :: "nat \<Rightarrow> string" where
  "hex n = (if n < 16 then [hexchar n] else hex (n div 16) @ [hexchar (n mod 16)])"
  by pat_completeness auto
termination
  by (relation "measure id") auto

declare hex.simps [simp del]

text \<open>\<open>str.rjust(width, fill)\<close> with a one-character fill.\<close>

definition rjust :: "nat \<Rightarrow> 'a \<Rightarrow> 'a list \<Rightarrow> 'a list" where
  "rjust width fill s = replicate (width - length s) fill @ s"

text \<open>\<open>binascii.hexlify(data).decode("UTF-8")\<close>: two lower-case digits per byte.\<close>

definition hexlify :: "byte list \<Rightarrow> string" where
  "hexlify data = concat (map (\<lambda>b. [hexchar (unat b div 16), hexchar (unat b mod 16)]) data)"

text \<open>
  \<open>bytes.rjust(width, fillchar)\<close> checks its second argument first: it must be a bytes
  object of length 1, and anything else (a \<open>str\<close>, whatever its length) is a TypeError,
  whatever the length of the receiver.
\<close>

datatype pyarg = Str string | Bytes "byte list"

definition bytes_rjust :: "byte list \<Rightarrow> nat \<Rightarrow> pyarg \<Rightarrow> py_error + byte list" where
  "bytes_rjust data width fillchar =
     (case fillchar of
        Bytes [c] \<Rightarrow> Inr (rjust width c data)
      | _ \<Rightarrow> Inl TypeError)"

section \<open>CustomKeyInformation (lines 68-132)\<close>

record CustomKeyInformation_obj =
  Version :: nat
  Flags :: nat
  VolumeType :: "nat option"
  SupportsNotification :: "bool option"
  FekKeyVersion :: "nat option"
  Strength :: "nat option"
  Reserved :: "byte list option"
  EncodedExtendedCKI :: "byte list option"

text \<open>The fill argument of line 123, written \<open>'b\x00'\<close> in the source: a \<open>str\<close> of the
  two characters \<open>b\<close> and NUL.\<close>

definition reserved_fill :: pyarg where
  "reserved_fill = Str [CHR ''b'', CHR 0x00]"

text \<open>
  The constructor reads \<open>Version\<close> and \<open>Flags\<close> with an unconditional
  \<open>struct.unpack('<B', stream.read(1))\<close>, then each optional field with
  \<open>data = stream.read(k); if len(data) != 0: ... else: None\<close>.
\<close>

definition opt_field :: "byte list \<Rightarrow> (byte list \<Rightarrow> py_error + 'a) \<Rightarrow> py_error + 'a option" where
  "opt_field data conv =
     (if length data \<noteq> 0 then bind_err (conv data) (\<lambda>v. Inr (Some v)) else Inr None)"

definition CustomKeyInformation :: "byte list \<Rightarrow> py_error + CustomKeyInformation_obj" where
  "CustomKeyInformation keyMaterial =
    (let (d0, s0) = read 1 keyMaterial in
     bind_err (unpack_le 1 d0) (\<lambda>version.
     let (d1, s1) = read 1 s0 in
     bind_err (unpack_le 1 d1) (\<lambda>flags.
     let (d2, s2) = read 1 s1 in
     bind_err (opt_field d2 (unpack_le 1)) (\<lambda>volumeType.
     let (d3, s3) = read 1 s2 in
     bind_err (opt_field d3 (\<lambda>d. bind_err (unpack_le 1 d) (\<lambda>v. Inr (v \<noteq> 0)))) (\<lambda>supportsNotification.
     let (d4, s4) = read 1 s3 in
     bind_err (opt_field d4 (unpack_le 1)) (\<lambda>fekKeyVersion.
     let (d5, s5) = read 1 s4 in
     bind_err (opt_field d5 (unpack_le 1)) (\<lambda>strength.
     let (d6, s6) = read 10 s5 in
     bind_err (opt_field d6 (\<lambda>d. bytes_rjust d 10 reserved_fill)) (\<lambda>reserved.
     let d7 = s6 in
     Inr \<lparr> Version = version, Flags = flags, VolumeType = volumeType,
           SupportsNotification = supportsNotification, FekKeyVersion = fekKeyVersion,
           Strength = strength, Reserved = reserved,
           EncodedExtendedCKI = (if length d7 \<noteq> 0 then Some d7 else None) \<rparr>))))))))"

section \<open>ConvertToBinaryIdentifier (lines 140-146)\<close>

definition Version0 :: nat where "Version0 = 0x0"
definition Version1 :: nat where "Version1 = 0x00000100"
definition Version2 :: nat where "Version2 = 0x00000200"

definition hexval :: "byte \<Rightarrow> nat option" where
  "hexval c =
     (let n = unat c in
      if 48 \<le> n \<and> n \<le> 57 then Some (n - 48)
      else if 97 \<le> n \<and> n \<le> 102 then Some (n - 87)
      else if 65 \<le> n \<and> n \<le> 70 then Some (n - 55)
      else None)"

text \<open>\<open>binascii.unhexlify\<close> on ASCII text given as bytes: binascii.Error (a ValueError)
  on an odd length or a character that is no hex digit.\<close>

fun unhexlify :: "byte list \<Rightarrow> py_error + byte list" where
  "unhexlify [] = Inr []"
| "unhexlify [c] = Inl ValueError"
| "unhexlify (c # d # rest) =
     (case (hexval c, hexval d) of
        (Some h, Some l) \<Rightarrow>
          bind_err (unhexlify rest) (\<lambda>bs. Inr (of_nat (16 * h + l) # bs))
      | _ \<Rightarrow> Inl ValueError)"

text \<open>
  \<open>base64.b64decode\<close> belongs to the Python standard library; it is a parameter of
  the model. The source has three branches: the two legacy versions, Version2, and an
  \<open>else\<close> that repeats the Version2 branch.
\<close>

definition ConvertToBinaryIdentifier ::
  "(byte list \<Rightarrow> py_error + byte list) \<Rightarrow> byte list \<Rightarrow> nat \<Rightarrow> py_error + byte list" where
  "ConvertToBinaryIdentifier b64decode keyIdentifier version =
     (if version \<in> set [Version0, Version1] then unhexlify keyIdentifier
      else if version = Version2 then b64decode keyIdentifier
      else b64decode keyIdentifier)"

section \<open>Guid (lines 148-154)\<close>

definition Guid :: "byte list \<Rightarrow> py_error + string" where
  "Guid data =
     bind_err (unpack_le 4 (slice data 0 4)) (\<lambda>a0.
     bind_err (unpack_le 2 (slice data 4 6)) (\<lambda>b0.
     bind_err (unpack_le 2 (slice data 6 8)) (\<lambda>c0.
     bind_err (unpack_be 2 (slice data 8 10)) (\<lambda>d0.
     let a = rjust 4 (CHR ''0'') (hex a0);
         b = rjust 2 (CHR ''0'') (hex b0);
         c = rjust 2 (CHR ''0'') (hex c0);
         d = rjust 2 (CHR ''0'') (hex d0);
         e = rjust 6 (CHR ''0'') (hexlify (slice data 10 16))
     in Inr (a @ ''-'' @ b @ ''-'' @ c @ ''-'' @ d @ ''-'' @ e)))))"

section \<open>ConvertFromBinaryTime (lines 156-181)\<close>

text \<open>
  The Python standard library is a parameter of the model: \<open>base64.b64decode\<close>,
  whether a byte string is valid UTF-8 (a Python \<open>str\<close> is represented by its UTF-8
  encoding, so \<open>bytes.decode('UTF-8')\<close> either raises UnicodeDecodeError or keeps the
  bytes), and \<open>datetime.datetime(1601, 1, 1, 0, 0, 0) + datetime.timedelta(seconds=t/1e7)\<close>
  as a function of the tick count \<open>t\<close>, which raises OverflowError beyond year 9999.
\<close>

record 'dt pylib =
  b64decode :: "byte list \<Rightarrow> py_error + byte list"
  valid_utf8 :: "byte list \<Rightarrow> bool"
  epoch_plus_ticks :: "nat \<Rightarrow> py_error + 'dt"

definition KeySource_AD :: nat where "KeySource_AD = 0x0"

text \<open>Every branch of the source returns the same expression; the two \<open>else\<close>
  branches on the source print a warning first.\<close>

definition ConvertFromBinaryTime ::
  "'dt pylib \<Rightarrow> byte list \<Rightarrow> nat \<Rightarrow> nat \<Rightarrow> py_error + 'dt" where
  "ConvertFromBinaryTime lib binaryTime source version =
     bind_err (unpack_le 8 binaryTime) (\<lambda>timeStamp.
       if version = Version0 then epoch_plus_ticks lib timeStamp
       else if version = Version1 then epoch_plus_ticks lib timeStamp
       else if version = Version2 then
         (if source = KeySource_AD then epoch_plus_ticks lib timeStamp
          else epoch_plus_ticks lib timeStamp)
       else
         (if source = KeySource_AD then epoch_plus_ticks lib timeStamp
          else epoch_plus_ticks lib timeStamp))"

section \<open>DN\_binary\_KeyCredentialLink (lines 183-240)\<close>

record KeyCredentialEntry =
  entryType :: nat
  val :: "byte list"

text \<open>
  The object after construction: \<open>structure["dn"]\<close>, \<open>version\<close>, the attribute
  \<open>source\<close> (\<open>None\<close> while it has never been assigned: reading it then raises
  AttributeError) and the keys of \<open>parsed_data\<close> (\<open>None\<close> for a key not in the dict).
\<close>

record 'dt KeyCredentialLink =
  dn :: "byte list"
  version :: nat
  source :: "nat option"
  KeyID :: "byte list option"
  KeyMaterial :: "byte list option"
  Usage :: "nat option"
  LegacyUsage :: "byte list option"
  KeySource :: "nat option"
  DevideId :: "string option"
  CustomKeyInfo :: "CustomKeyInformation_obj option"
  KeyApproximateLastLogonTimeStamp :: "'dt option"
  KeyCreationTime :: "'dt option"

text \<open>\<open>str.split(":")\<close>, on the UTF-8 encoding (the byte 0x3A occurs in valid UTF-8
  only as the colon itself), and \<open>data[i]\<close>.\<close>

fun split_on :: "'a \<Rightarrow> 'a list \<Rightarrow> 'a list list" where
  "split_on sep [] = [[]]"
| "split_on sep (c # cs) =
     (if c = sep then [] # split_on sep cs
      else (case split_on sep cs of f # fs \<Rightarrow> (c # f) # fs | [] \<Rightarrow> [[c]]))"

definition index :: "'a list \<Rightarrow> nat \<Rightarrow> py_error + 'a" where
  "index xs i = (if i < length xs then Inr (xs ! i) else Inl IndexError)"

text \<open>
  The \<open>while read_data != b''\<close> loop of lines 201-210. \<open>read_data\<close> is the header just
  read, \<open>stream\<close> the bytes after it, \<open>data\<close> the entries appended so far.
\<close>

function read_loop ::
  "byte list \<Rightarrow> byte list \<Rightarrow> KeyCredentialEntry list \<Rightarrow> py_error + KeyCredentialEntry list" where
  "read_loop read_data stream data =
     (if read_data = [] then Inr data
      else
        (case unpack_HB read_data of
           Inl e \<Rightarrow> Inl e
         | Inr (len, etype) \<Rightarrow>
             read_loop (fst (read 3 (snd (read len stream))))
                       (snd (read 3 (snd (read len stream))))
                       (data @ [\<lparr> entryType = etype, val = fst (read len stream) \<rparr>])))"
  by pat_completeness auto
termination
  by (relation "measure (\<lambda>(read_data, stream, data). length read_data + length stream)")
     (auto simp: read_def neq_Nil_conv)

declare read_loop.simps [simp del]

text \<open>One iteration of the \<open>for row in data\<close> loop of lines 214-240.\<close>

definition parse_row ::
  "'dt pylib \<Rightarrow> 'dt KeyCredentialLink \<Rightarrow> KeyCredentialEntry \<Rightarrow> py_error + 'dt KeyCredentialLink" where
  "parse_row lib self row =
    (if entryType row = 0x01 then
       bind_err (ConvertToBinaryIdentifier (b64decode lib) (val row) (version self))
         (\<lambda>k. Inr (self\<lparr>KeyID := Some k\<rparr>))
     else if entryType row = 0x02 then Inr self
     else if entryType row = 0x03 then Inr (self\<lparr>KeyMaterial := Some (val row)\<rparr>)
     else if entryType row = 0x04 then
       (if length (val row) = 1 then Inr (self\<lparr>Usage := Some (unat (val row ! 0))\<rparr>)
        else if valid_utf8 lib (val row) then Inr (self\<lparr>LegacyUsage := Some (val row)\<rparr>)
        else Inl UnicodeDecodeError)
     else if entryType row = 0x05 then
       bind_err (index (val row) 0)
         (\<lambda>b. Inr (self\<lparr>KeySource := Some (unat b), source := Some (unat b)\<rparr>))
     else if entryType row = 0x06 then
       bind_err (Guid (val row)) (\<lambda>g. Inr (self\<lparr>DevideId := Some g\<rparr>))
     else if entryType row = 0x07 then
       bind_err (CustomKeyInformation (val row)) (\<lambda>c. Inr (self\<lparr>CustomKeyInfo := Some c\<rparr>))
     else if entryType row = 0x08 then
       (case source self of
          None \<Rightarrow> Inl AttributeError
        | Some src \<Rightarrow>
            bind_err (ConvertFromBinaryTime lib (val row) src (version self))
              (\<lambda>t. Inr (self\<lparr>KeyApproximateLastLogonTimeStamp := Some t\<rparr>)))
     else if entryType row = 0x09 then
       (case source self of
          None \<Rightarrow> Inl AttributeError
        | Some src \<Rightarrow>
            bind_err (ConvertFromBinaryTime lib (val row) src (version self))
              (\<lambda>t. Inr (self\<lparr>KeyCreationTime := Some t\<rparr>)))
     else Inr self)"

fun parse_rows ::
  "'dt pylib \<Rightarrow> 'dt KeyCredentialLink \<Rightarrow> KeyCredentialEntry list \<Rightarrow> py_error + 'dt KeyCredentialLink" where
  "parse_rows lib self [] = Inr self"
| "parse_rows lib self (row # rows) =
     bind_err (parse_row lib self row) (\<lambda>self'. parse_rows lib self' rows)"

text \<open>Lines 196-210: the version, then the entries of the stream.\<close>

definition read_entries :: "byte list \<Rightarrow> py_error + KeyCredentialEntry list" where
  "read_entries stream = read_loop (fst (read 3 stream)) (snd (read 3 stream)) []"

definition new_KeyCredentialLink :: "byte list \<Rightarrow> nat \<Rightarrow> 'dt KeyCredentialLink" where
  "new_KeyCredentialLink d v =
     \<lparr> dn = d, version = v, source = None, KeyID = None, KeyMaterial = None, Usage = None,
       LegacyUsage = None, KeySource = None, DevideId = None, CustomKeyInfo = None,
       KeyApproximateLastLogonTimeStamp = None, KeyCreationTime = None \<rparr>"

text \<open>Lines 196-240 on the decoded binary blob.\<close>

definition parse_binary_data ::
  "'dt pylib \<Rightarrow> byte list \<Rightarrow> byte list \<Rightarrow> py_error + 'dt KeyCredentialLink" where
  "parse_binary_data lib d binary_data =
     bind_err (unpack_le 4 (fst (read 4 binary_data))) (\<lambda>v.
     bind_err (read_entries (snd (read 4 binary_data))) (\<lambda>data.
     parse_rows lib (new_KeyCredentialLink d v) data))"

text \<open>The constructor: lines 185-240. \<open>unhexlify(data[2])\<close> is evaluated before
  \<open>data[3]\<close>.\<close>

definition DN_binary_KeyCredentialLink ::
  "'dt pylib \<Rightarrow> byte list \<Rightarrow> py_error + 'dt KeyCredentialLink" where
  "DN_binary_KeyCredentialLink lib raw_data =
     (if \<not> valid_utf8 lib raw_data then Inl UnicodeDecodeError
      else
        (let data = split_on 0x3A raw_data in
         bind_err (index data 2) (\<lambda>hexblob.
         bind_err (unhexlify hexblob) (\<lambda>binary_data.
         bind_err (index data 3) (\<lambda>d.
         parse_binary_data lib d binary_data)))))"

section \<open>Security descriptors and the directory session\<close>

text \<open>
  \<open>ldaptypes.SR_SECURITY_DESCRIPTOR\<close>, its ACEs and SIDs belong to the impacket library.
  The records keep the fields the program and its specification name; the SID type is a
  parameter. \<open>Dacl\<close> is the list \<open>sd['Dacl'].aces\<close>, \<open>Sid\<close> is \<open>ace['Ace']['Sid']\<close>.

  An \<open>LDAP_SID\<close> object comes from one of two places: the descriptor codec decodes it
  from bytes (\<open>Decoded\<close>, over the library's own SID type \<open>'sid\<close>), or it is built from
  a canonical string for a new ACE (\<open>Parsed\<close>).
\<close>

datatype 'sid LDAP_SID = Parsed string | Decoded 'sid

datatype ace_type = ACCESS_ALLOWED_ACE | OTHER_ACE nat

record 'sid ACE =
  AceType :: ace_type
  AceFlags :: nat
  Mask :: nat
  Sid :: 'sid

record 'sid SR_SECURITY_DESCRIPTOR =
  Revision :: nat
  Control :: nat
  OwnerSid :: 'sid
  GroupSid :: 'sid
  Sacl :: "byte list"
  Dacl :: "'sid ACE list"

text \<open>
  The environment of \<open>ShadowCredentials\<close>: the Python library (\<open>py\<close>), impacket's
  descriptor codec (\<open>SR_SECURITY_DESCRIPTOR(data=...)\<close>, \<open>getData()\<close>), the canonical
  string of a SID the codec has decoded (\<open>sid_string\<close>), and the values the specification
  leaves open for the two helpers that \<open>pywhisker.py\<close> calls without defining them: the
  access mask of a new ACE, and the revision, control, owner and group of a new
  descriptor.
\<close>

record ('sid, 'dt) env =
  py :: "'dt pylib"
  sd_from_bytes :: "byte list \<Rightarrow> py_error + 'sid LDAP_SID SR_SECURITY_DESCRIPTOR"
  getData :: "'sid LDAP_SID SR_SECURITY_DESCRIPTOR \<Rightarrow> byte list"
  sid_string :: "'sid \<Rightarrow> string"
  allow_mask :: nat
  empty_revision :: nat
  empty_control :: nat
  default_owner :: "'sid LDAP_SID"
  default_group :: "'sid LDAP_SID"

text \<open>
  \<open>LDAP_SID.formatCanonical()\<close>: the library's string for a decoded SID.
  Modelled from the spec, for the SID of a new ACE, which only \<open>create_allow_ace\<close> (called
  at line 474 and defined nowhere in \<open>pywhisker.py\<close>) builds: section 3 identifies a SID
  by its canonical string and section 4.4 appends an ACE for the given SID, so the SID
  built from a canonical string has that string as its canonical form.
\<close>

definition formatCanonical :: "('sid, 'dt) env \<Rightarrow> 'sid LDAP_SID \<Rightarrow> string" where
  "formatCanonical E x = (case x of Parsed s \<Rightarrow> s | Decoded y \<Rightarrow> sid_string E y)"

definition fromCanonical :: "('sid, 'dt) env \<Rightarrow> string \<Rightarrow> 'sid LDAP_SID" where
  "fromCanonical E s = Parsed s"

text \<open>
  Modelled from the spec: \<open>create_allow_ace\<close>, called at line 474 and defined nowhere in
  \<open>pywhisker.py\<close>. Section 4.4 (addActor): one ACE granting the access-allowed type, with
  a fixed default, non-inherited flag and mask combination, for the given SID.
\<close>

definition create_allow_ace :: "('sid, 'dt) env \<Rightarrow> string \<Rightarrow> 'sid LDAP_SID ACE" where
  "create_allow_ace E sid =
     \<lparr> AceType = ACCESS_ALLOWED_ACE, AceFlags = 0, Mask = allow_mask E,
       Sid = fromCanonical E sid \<rparr>"

text \<open>
  Modelled from the spec: \<open>create_empty_sd\<close>, called at line 593 and defined nowhere in
  \<open>pywhisker.py\<close>. Section 4.4 (emptyDescriptor): a minimal valid self-relative
  descriptor with a default owner and group (the call passes no argument) and an empty
  DACL.
\<close>

definition create_empty_sd :: "('sid, 'dt) env \<Rightarrow> 'sid LDAP_SID SR_SECURITY_DESCRIPTOR" where
  "create_empty_sd E =
     \<lparr> Revision = empty_revision E, Control = empty_control E,
       OwnerSid = default_owner E, GroupSid = default_group E, Sacl = [], Dacl = [] \<rparr>"

text \<open>
  The state of one run: the fields of the \<open>ShadowCredentials\<close> object, the directory
  behind \<open>ldap_session\<close>, and what the run has sent and logged.
  \<^item> \<open>sam_index\<close>: the search \<open>(sAMAccountName=x)\<close> of \<open>get_user_info\<close>; its first entry's
    \<open>entry_dn\<close> and formatted \<open>objectSid\<close>, \<open>None\<close> when \<open>entries\<close> is empty.
  \<^item> \<open>sid_index\<close>: the search \<open>(objectSid=x)\<close> of \<open>get_sid_info\<close>; the first entry's
    \<open>entry_dn\<close> and \<open>samaccountname\<close>.
  \<^item> \<open>base_entry\<close>: the BASE search of \<open>get_keycredentiallink\<close>; the raw attributes of the
    entry at a DN (the empty list for an attribute the entry does not have), \<open>None\<close>
    when the response holds no \<open>searchResEntry\<close>.
  \<^item> \<open>accept\<close>: the server's answer (result code and message) to a modify request.
  \<^item> \<open>modifies\<close>: the modify requests sent (DN, attribute, values), oldest first.
  \<^item> \<open>DN_delegate_to\<close>, \<open>SID_delegate_from\<close>, \<open>delegate_from\<close> are \<open>None\<close> after
    \<open>__init__\<close>; each method assigns them before it reads them, and the model keeps the
    assigned values only.
\<close>

datatype level = INFO | ERROR

record targetuser =
  entry_dn :: string
  raw_attributes :: "string \<Rightarrow> byte list list"

record ShadowCredentials =
  delegate_from :: string
  delegate_to :: string
  SID_delegate_from :: string
  DN_delegate_to :: string
  sam_index :: "string \<Rightarrow> (string \<times> string) option"
  sid_index :: "string \<Rightarrow> (string \<times> string) option"
  base_entry :: "string \<Rightarrow> (string \<Rightarrow> byte list list) option"
  accept :: "string \<Rightarrow> string \<Rightarrow> byte list list \<Rightarrow> nat \<times> string"
  modifies :: "(string \<times> string \<times> byte list list) list"
  result :: "nat \<times> string"
  logged :: "(level \<times> string) list"

definition logging :: "level \<Rightarrow> string \<Rightarrow> ShadowCredentials \<Rightarrow> ShadowCredentials" where
  "logging lvl msg self = self\<lparr>logged := logged self @ [(lvl, msg)]\<rparr>"

text \<open>
  \<open>ldap_session.modify(dn, {attr: [MODIFY_REPLACE, vals]})\<close>: the request is sent, the
  answer is kept in \<open>result\<close>, and a request answered with code 0 has replaced the values
  of the attribute.
\<close>

definition modify ::
  "ShadowCredentials \<Rightarrow> string \<Rightarrow> string \<Rightarrow> byte list list \<Rightarrow> ShadowCredentials" where
  "modify self d attr vals =
     (let rc = accept self d attr vals in
      self\<lparr> modifies := modifies self @ [(d, attr, vals)],
            result := rc,
            base_entry :=
              (if fst rc = 0
               then (\<lambda>x. if x = d
                          then map_option (\<lambda>attrs. attrs(attr := vals)) (base_entry self x)
                          else base_entry self x)
               else base_entry self) \<rparr>)"

text \<open>Lines 596-604 and 606-614. \<open>None\<close> is the value \<open>False\<close> returned after
  the IndexError of \<open>entries[0]\<close>.\<close>

definition get_user_info ::
  "ShadowCredentials \<Rightarrow> string \<Rightarrow> (string \<times> string) option \<times> ShadowCredentials" where
  "get_user_info self samname =
     (case sam_index self samname of
        Some (d, sid) \<Rightarrow> (Some (d, sid), self)
      | None \<Rightarrow> (None, logging ERROR (''User not found in LDAP: '' @ samname) self))"

definition get_sid_info ::
  "ShadowCredentials \<Rightarrow> string \<Rightarrow> (string \<times> string) option \<times> ShadowCredentials" where
  "get_sid_info self sid =
     (case sid_index self sid of
        Some (d, samname) \<Rightarrow> (Some (d, samname), self)
      | None \<Rightarrow> (None, logging ERROR (''SID not found in LDAP: '' @ sid) self))"

text \<open>
  The loop of lines 584-587. \<open>get_sid_info(...)[1]\<close> subscripts the returned value:
  on \<open>False\<close> that is a TypeError.
\<close>

fun list_aces ::
  "('sid, 'dt) env \<Rightarrow> ShadowCredentials \<Rightarrow> 'sid LDAP_SID ACE list \<Rightarrow>
   (py_error + unit) \<times> ShadowCredentials" where
  "list_aces E self [] = (Inr (), self)"
| "list_aces E self (ace # aces) =
     (let SID = formatCanonical E (Sid ace) in
      case get_sid_info self (formatCanonical E (Sid ace)) of
        (None, self1) \<Rightarrow> (Inl TypeError, self1)
      | (Some (d, SamAccountName), self1) \<Rightarrow>
          list_aces E
            (logging INFO (''    '' @ SamAccountName @ replicate (10 - length SamAccountName) CHR '' ''
                           @ ''   ('' @ SID @ '')'') self1)
            aces)"

text \<open>The body of the \<open>try\<close> of lines 577-589.\<close>

definition try_keycredentiallink ::
  "('sid, 'dt) env \<Rightarrow> ShadowCredentials \<Rightarrow> targetuser \<Rightarrow>
   (py_error + 'sid LDAP_SID SR_SECURITY_DESCRIPTOR) \<times> ShadowCredentials" where
  "try_keycredentiallink E self tu =
     (case index (raw_attributes tu ''msDS-KeyCredentialLink'') 0 of
        Inl e \<Rightarrow> (Inl e, self)
      | Inr raw \<Rightarrow>
         (case DN_binary_KeyCredentialLink (py E) raw of
            Inl e \<Rightarrow> (Inl e, self)
          | Inr attr \<Rightarrow>
             (case sd_from_bytes E raw of
                Inl e \<Rightarrow> (Inl e, self)
              | Inr sd \<Rightarrow>
                 (if length (Dacl sd) > 0 then
                    (case list_aces E
                            (logging INFO ''Accounts allowed to act on behalf of other identity:'' self)
                            (Dacl sd) of
                       (Inl e, self1) \<Rightarrow> (Inl e, self1)
                     | (Inr u, self1) \<Rightarrow> (Inr sd, self1))
                  else (Inr sd, logging INFO ''Attribute msDS-KeyCredentialLink is empty'' self)))))"

text \<open>
  Lines 564-594. The result is \<open>None\<close> for the bare \<open>return\<close> of line 575 and the pair
  \<open>(sd, targetuser)\<close> otherwise; only an IndexError raised in the \<open>try\<close> is caught.
\<close>

definition get_keycredentiallink ::
  "('sid, 'dt) env \<Rightarrow> ShadowCredentials \<Rightarrow>
   (py_error + ('sid LDAP_SID SR_SECURITY_DESCRIPTOR \<times> targetuser) option) \<times> ShadowCredentials" where
  "get_keycredentiallink E self =
     (case base_entry self (DN_delegate_to self) of
        None \<Rightarrow> (Inr None, logging ERROR ''Could not query target user properties'' self)
      | Some attrs \<Rightarrow>
         (let tu = \<lparr> entry_dn = DN_delegate_to self, raw_attributes = attrs \<rparr> in
          case try_keycredentiallink E self tu of
            (Inl IndexError, self1) \<Rightarrow>
              (Inr (Some (create_empty_sd E, tu)),
               logging INFO ''Attribute msDS-KeyCredentialLink is empty'' self1)
          | (Inl e, self1) \<Rightarrow> (Inl e, self1)
          | (Inr sd, self1) \<Rightarrow> (Inr (Some (sd, tu)), self1)))"

text \<open>The report on \<open>ldap_session.result\<close> that follows each modify (lines 478-489,
  522-532, 549-559); \<open>ok\<close> is what the method logs on code 0.\<close>

definition report_result :: "(level \<times> string) list \<Rightarrow> ShadowCredentials \<Rightarrow> ShadowCredentials" where
  "report_result ok self =
     (if fst (result self) = 0 then self\<lparr>logged := logged self @ ok\<rparr>
      else if fst (result self) = 50 then
        logging ERROR (''Could not modify object, the server reports insufficient rights: ''
                       @ snd (result self)) self
      else if fst (result self) = 19 then
        logging ERROR (''Could not modify object, the server reports a constrained violation: ''
                       @ snd (result self)) self
      else logging ERROR (''The server returned an error: '' @ snd (result self)) self)"

text \<open>The last statement of \<open>write\<close>, \<open>remove\<close> and \<open>flush\<close>: the listing is run once
  more and its result dropped.\<close>

definition list_again ::
  "('sid, 'dt) env \<Rightarrow> ShadowCredentials \<Rightarrow> (py_error + unit) \<times> ShadowCredentials" where
  "list_again E self =
     (case get_keycredentiallink E self of
        (Inl e, self1) \<Rightarrow> (Inl e, self1)
      | (Inr r, self1) \<Rightarrow> (Inr (), self1))"

definition dacl_sids :: "('sid, 'dt) env \<Rightarrow> 'sid LDAP_SID SR_SECURITY_DESCRIPTOR \<Rightarrow> string list" where
  "dacl_sids E sd = map (\<lambda>ace. formatCanonical E (Sid ace)) (Dacl sd)"

definition attribute_name :: string where
  "attribute_name = ''msDS-AllowedToActOnBehalfOfOtherIdentity''"

text \<open>Lines 473-474 as a function on descriptors: the ACE is appended only if the SID
  is not among the canonical SIDs of the DACL.\<close>

definition addActor ::
  "('sid, 'dt) env \<Rightarrow> 'sid LDAP_SID SR_SECURITY_DESCRIPTOR \<Rightarrow> string \<Rightarrow>
   'sid LDAP_SID SR_SECURITY_DESCRIPTOR" where
  "addActor E sd sid =
     (if sid \<notin> set (dacl_sids E sd) then sd\<lparr>Dacl := Dacl sd @ [create_allow_ace E sid]\<rparr>
      else sd)"

text \<open>Line 518 as a function on descriptors.\<close>

definition removeActor ::
  "('sid, 'dt) env \<Rightarrow> 'sid LDAP_SID SR_SECURITY_DESCRIPTOR \<Rightarrow> string \<Rightarrow>
   'sid LDAP_SID SR_SECURITY_DESCRIPTOR" where
  "removeActor E sd sid = sd\<lparr>Dacl := filter (\<lambda>ace. sid \<noteq> formatCanonical E (Sid ace)) (Dacl sd)\<rparr>"

text \<open>
  \<open>write\<close> (lines 452-495), named \<open>write_action\<close> here. Unpacking
  \<open>sd, targetuser = None\<close> is a TypeError.
\<close>

definition write_action ::
  "('sid, 'dt) env \<Rightarrow> string \<Rightarrow> ShadowCredentials \<Rightarrow> (py_error + unit) \<times> ShadowCredentials" where
  "write_action E from self =
     (case get_user_info (self\<lparr>delegate_from := from\<rparr>) from of
        (None, self1) \<Rightarrow> (Inr (), logging ERROR ''User to escalate does not exist!'' self1)
      | (Some (d1, sid), self1) \<Rightarrow>
         (case get_user_info (self1\<lparr>SID_delegate_from := sid\<rparr>) (delegate_to self1) of
            (None, self2) \<Rightarrow>
              (Inr (), logging ERROR ''Computer to modify does not exist! (wrong domain?)'' self2)
          | (Some (d2, sid2), self2) \<Rightarrow>
             (case get_keycredentiallink E (self2\<lparr>DN_delegate_to := d2\<rparr>) of
                (Inl e, self3) \<Rightarrow> (Inl e, self3)
              | (Inr None, self3) \<Rightarrow> (Inl TypeError, self3)
              | (Inr (Some (sd, tu)), self3) \<Rightarrow>
                 (if SID_delegate_from self3 \<notin> set (dacl_sids E sd) then
                    list_again E
                      (report_result
                         [(INFO, ''Delegation rights modified successfully!''),
                          (INFO, delegate_from self3 @ '' can now impersonate users on ''
                                 @ delegate_to self3 @ '' via S4U2Proxy'')]
                         (modify self3 (entry_dn tu) attribute_name
                            [getData E (sd\<lparr>Dacl := Dacl sd @ [create_allow_ace E (SID_delegate_from self3)]\<rparr>)]))
                  else
                    list_again E
                      (logging INFO ''Not modifying the delegation rights.''
                         (logging INFO (delegate_from self3 @ '' can already impersonate users on ''
                                        @ delegate_to self3 @ '' via S4U2Proxy'') self3))))))"

text \<open>\<open>remove\<close> (lines 497-535): the modify of line 519 is under no condition.\<close>

definition remove ::
  "('sid, 'dt) env \<Rightarrow> string \<Rightarrow> ShadowCredentials \<Rightarrow> (py_error + unit) \<times> ShadowCredentials" where
  "remove E from self =
     (case get_user_info (self\<lparr>delegate_from := from\<rparr>) from of
        (None, self1) \<Rightarrow> (Inr (), logging ERROR ''User to escalate does not exist!'' self1)
      | (Some (d1, sid), self1) \<Rightarrow>
         (case get_user_info (self1\<lparr>SID_delegate_from := sid\<rparr>) (delegate_to self1) of
            (None, self2) \<Rightarrow>
              (Inr (), logging ERROR ''Computer to modify does not exist! (wrong domain?)'' self2)
          | (Some (d2, sid2), self2) \<Rightarrow>
             (case get_keycredentiallink E (self2\<lparr>DN_delegate_to := d2\<rparr>) of
                (Inl e, self3) \<Rightarrow> (Inl e, self3)
              | (Inr None, self3) \<Rightarrow> (Inl TypeError, self3)
              | (Inr (Some (sd, tu)), self3) \<Rightarrow>
                  list_again E
                    (report_result [(INFO, ''Delegation rights modified successfully!'')]
                       (modify self3 (entry_dn tu) attribute_name
                          [getData E (removeActor E sd (SID_delegate_from self3))])))))"

text \<open>\<open>flush\<close> (lines 537-562): the fetched descriptor is not used; the request
  replaces the attribute by the empty list of values.\<close>

definition flush ::
  "('sid, 'dt) env \<Rightarrow> ShadowCredentials \<Rightarrow> (py_error + unit) \<times> ShadowCredentials" where
  "flush E self =
     (case get_user_info self (delegate_to self) of
        (None, self1) \<Rightarrow>
          (Inr (), logging ERROR ''Computer to modify does not exist! (wrong domain?)'' self1)
      | (Some (d2, sid2), self1) \<Rightarrow>
         (case get_keycredentiallink E (self1\<lparr>DN_delegate_to := d2\<rparr>) of
            (Inl e, self2) \<Rightarrow> (Inl e, self2)
          | (Inr None, self2) \<Rightarrow> (Inl TypeError, self2)
          | (Inr (Some (sd, tu)), self2) \<Rightarrow>
              list_again E
                (report_result [(INFO, ''Delegation rights flushed successfully!'')]
                   (modify self2 (entry_dn tu) attribute_name []))))"

section \<open>Frame of the listing, and a concrete environment\<close>

text \<open>\<open>only_logged s s'\<close>: the state \<open>s'\<close> is \<open>s\<close> with more lines logged, and nothing else
  changed.\<close>

definition only_logged :: "ShadowCredentials \<Rightarrow> ShadowCredentials \<Rightarrow> bool" where
  "only_logged s s' \<longleftrightarrow> (\<exists>l. s' = s\<lparr>logged := logged s @ l\<rparr>)"

text \<open>
  A concrete environment and directory, on which the functions above are evaluated.
  The library's SIDs are their canonical strings. The stand-in codec decodes any value to a descriptor
  with the given ACEs that keeps the bytes it was given, and encodes a descriptor as the
  kept bytes followed by the SIDs of its ACEs; with no ACE, encoding gives back the bytes
  that were decoded. \<open>demo_raw\<close> is the attribute value \<open>B:8:00020000:CN=x\<close>.
\<close>

definition demo_raw :: "byte list" where
  "demo_raw = [0x42, 0x3a, 0x38, 0x3a, 0x30, 0x30, 0x30, 0x32, 0x30, 0x30, 0x30, 0x30,
               0x3a, 0x43, 0x4e, 0x3d, 0x78]"

definition demo_ace :: "string LDAP_SID ACE" where
  "demo_ace = \<lparr> AceType = ACCESS_ALLOWED_ACE, AceFlags = 0, Mask = 983551,
                Sid = Parsed ''S-1-5-21-1-2-3-1104'' \<rparr>"

definition demo_ace2 :: "string LDAP_SID ACE" where
  "demo_ace2 = \<lparr> AceType = OTHER_ACE 1, AceFlags = 2, Mask = 1,
                 Sid = Decoded ''S-1-5-21-1-2-3-1106'' \<rparr>"

definition demo_attrs :: "string \<Rightarrow> byte list list" where
  "demo_attrs a = (if a = ''msDS-KeyCredentialLink'' then [demo_raw] else [])"

definition demo_sd :: "string LDAP_SID ACE list \<Rightarrow> string LDAP_SID SR_SECURITY_DESCRIPTOR" where
  "demo_sd aces = \<lparr> Revision = 1, Control = 0x8004, OwnerSid = Decoded ''S-1-5-32-544'',
                    GroupSid = Decoded ''S-1-5-32-544'', Sacl = demo_raw, Dacl = aces \<rparr>"

definition demo_env :: "string LDAP_SID ACE list \<Rightarrow> (string, nat) env" where
  "demo_env aces =
     \<lparr> py = \<lparr> b64decode = Inr, valid_utf8 = (\<lambda>bs. True), epoch_plus_ticks = Inr \<rparr>,
       sd_from_bytes = (\<lambda>raw. Inr \<lparr> Revision = 1, Control = 0x8004,
                                   OwnerSid = Decoded ''S-1-5-32-544'',
                                   GroupSid = Decoded ''S-1-5-32-544'',
                                   Sacl = raw, Dacl = aces \<rparr>),
       getData = (\<lambda>sd. Sacl sd @ concat (map (\<lambda>ace. map (\<lambda>c. of_nat (of_char c))
                                          (case Sid ace of Parsed s \<Rightarrow> s | Decoded s \<Rightarrow> s))
                                        (Dacl sd))),
       sid_string = (\<lambda>sid. sid),
       allow_mask = 983551,
       empty_revision = 1,
       empty_control = 0x8004,
       default_owner = Decoded ''S-1-5-32-544'',
       default_group = Decoded ''S-1-5-32-544'' \<rparr>"

definition demo_state :: ShadowCredentials where
  "demo_state =
     \<lparr> delegate_from = [], delegate_to = ''SRV$'', SID_delegate_from = [], DN_delegate_to = [],
       sam_index = (\<lambda>n. if n = ''SRV$'' then Some (''CN=SRV'', ''S-1-5-21-1-2-3-1000'')
                        else if n = ''evil$'' then Some (''CN=evil'', ''S-1-5-21-1-2-3-1104'')
                        else if n = ''other$'' then Some (''CN=other'', ''S-1-5-21-1-2-3-1105'')
                        else None),
       sid_index = (\<lambda>sid. if sid = ''S-1-5-21-1-2-3-1104'' then Some (''CN=evil'', ''evil$'')
                          else None),
       base_entry = (\<lambda>d. if d = ''CN=SRV'' then Some demo_attrs else None),
       accept = (\<lambda>d attr vals. (0, [])),
       modifies = [], result = (0, []), logged = [] \<rparr>"

text \<open>The directory after an accepted request that replaces the values of
  \<open>msDS-AllowedToActOnBehalfOfOtherIdentity\<close> at \<open>d\<close> by no value.\<close>

definition cleared ::
  "string \<Rightarrow> (string \<Rightarrow> (string \<Rightarrow> byte list list) option) \<Rightarrow> string \<Rightarrow> (string \<Rightarrow> byte list list) option" where
  "cleared d b = (\<lambda>x. if x = d then map_option (\<lambda>attrs. attrs(attribute_name := [])) (b x) else b x)"

section \<open>Properties of the decoders\<close>

subsection \<open>Helper lemmas\<close>

lemma parse_row_source:
  "parse_row lib self row = Inr self' \<Longrightarrow> entryType row \<noteq> 5 \<Longrightarrow> source self' = source self"
  by (auto simp: parse_row_def bind_err_def split: if_splits sum.splits option.splits)

lemma parse_row_timestamp:
  "source self = None \<Longrightarrow> entryType row = 8 \<or> entryType row = 9 \<Longrightarrow>
   parse_row lib self row = Inl AttributeError"
  by (auto simp: parse_row_def)

lemma parse_rows_timestamp:
  "source self = None \<Longrightarrow> i < length rows \<Longrightarrow>
   entryType (rows ! i) = 8 \<or> entryType (rows ! i) = 9 \<Longrightarrow>
   \<forall>j<i. entryType (rows ! j) \<noteq> 5 \<Longrightarrow> \<exists>e. parse_rows lib self rows = Inl e"
proof (induction rows arbitrary: self i)
  case Nil
  then show ?case by simp
next
  case (Cons row rows)
  show ?case
  proof (cases i)
    case 0
    with Cons.prems have "parse_row lib self row = Inl AttributeError"
      by (intro parse_row_timestamp) auto
    then show ?thesis by (simp add: bind_err_def)
  next
    case (Suc k)
    show ?thesis
    proof (cases "parse_row lib self row")
      case (Inl e)
      then show ?thesis by (simp add: bind_err_def)
    next
      case (Inr self')
      from Cons.prems Suc have "entryType row \<noteq> 5" by auto
      with Inr Cons.prems have s: "source self' = None" by (simp add: parse_row_source)
      have "\<exists>e. parse_rows lib self' rows = Inl e"
      proof (rule Cons.IH [OF s, of k])
        show "k < length rows" using Cons.prems Suc by simp
        show "entryType (rows ! k) = 8 \<or> entryType (rows ! k) = 9" using Cons.prems Suc by simp
        show "\<forall>j<k. entryType (rows ! j) \<noteq> 5" using Cons.prems(4) Suc by auto
      qed
      with Inr show ?thesis by (simp add: bind_err_def)
    qed
  qed
qed

lemma CustomKeyInformation_before_reserved:
  assumes "2 \<le> length keyMaterial" and "length keyMaterial \<le> 6"
  shows "\<exists>r. CustomKeyInformation keyMaterial = Inr r"
  using assms
  by (auto simp: CustomKeyInformation_def read_def unpack_le_def bind_err_def opt_field_def min_def)

lemma Guid_short: "length data < 10 \<Longrightarrow> Guid data = Inl StructError"
  by (auto simp: Guid_def bind_err_def unpack_le_def unpack_be_def slice_def min_def)

lemma read_loop_Nil: "read_loop [] stream data = Inr data"
  by (simp add: read_loop.simps)

lemma read_loop_truncated:
  assumes "3 \<le> length s" and "length (drop 3 s) < le_nat (take 2 s)"
  shows "read_loop (take 3 s) (drop 3 s) data =
           Inr (data @ [\<lparr> entryType = unat (s ! 2), val = drop 3 s \<rparr>])"
proof -
  have hb: "unpack_HB (take 3 s) = Inr (le_nat (take 2 s), unat (s ! 2))"
    using assms by (simp add: unpack_HB_def min_def)
  have t: "take (le_nat (take 2 s)) (drop 3 s) = drop 3 s"
    and d: "drop (le_nat (take 2 s)) (drop 3 s) = []"
    using assms by auto
  have "read_loop (take 3 s) (drop 3 s) data =
        read_loop [] [] (data @ [\<lparr> entryType = unat (s ! 2), val = drop 3 s \<rparr>])"
    using assms by (subst read_loop.simps) (auto simp add: hb read_def t d simp del: drop_drop)
  then show ?thesis by (simp add: read_loop_Nil)
qed

lemma read_loop_complete:
  assumes "3 \<le> length s" and "le_nat (take 2 s) \<le> length (drop 3 s)"
  shows "read_loop (take 3 s) (drop 3 s) data =
           read_loop (take 3 (drop (3 + le_nat (take 2 s)) s))
                     (drop 3 (drop (3 + le_nat (take 2 s)) s))
                     (data @ [\<lparr> entryType = unat (s ! 2),
                               val = take (le_nat (take 2 s)) (drop 3 s) \<rparr>])"
proof -
  have hb: "unpack_HB (take 3 s) = Inr (le_nat (take 2 s), unat (s ! 2))"
    using assms by (simp add: unpack_HB_def min_def)
  have ne: "take 3 s \<noteq> []" using assms by auto
  show ?thesis
    using ne by (subst read_loop.simps) (simp add: hb read_def add.commute)
qed

lemma parse_truncated_single:
  assumes "length v = 4" and "3 \<le> length s" and "length (drop 3 s) < le_nat (take 2 s)"
  shows "parse_binary_data lib d (v @ s) =
           parse_row lib (new_KeyCredentialLink d (le_nat v))
             \<lparr> entryType = unat (s ! 2), val = drop 3 s \<rparr>"
  using assms read_loop_truncated [OF assms(2,3), of "[]"]
  by (simp add: parse_binary_data_def read_entries_def read_def unpack_le_def bind_err_def
      split: sum.splits)

lemma parse_truncated_after_source:
  assumes "length v = 4" and "3 \<le> length s" and "length (drop 3 s) < le_nat (take 2 s)"
    and "unat (s ! 2) = 8 \<or> unat (s ! 2) = 9" and "length (drop 3 s) \<noteq> 8"
  shows "parse_binary_data lib d (v @ [0x01, 0x00, 0x05, src] @ s) = Inl StructError"
proof -
  have "read_loop (take 3 ([0x01, 0x00, 0x05, src] @ s)) (drop 3 ([0x01, 0x00, 0x05, src] @ s)) []
        = read_loop (take 3 s) (drop 3 s) [\<lparr> entryType = 5, val = [src] \<rparr>]"
    by (subst read_loop.simps) (simp add: unpack_HB_def read_def)
  also have "\<dots> = Inr ([\<lparr> entryType = 5, val = [src] \<rparr>]
                        @ [\<lparr> entryType = unat (s ! 2), val = drop 3 s \<rparr>])"
    by (rule read_loop_truncated [OF assms(2,3)])
  finally have e: "read_entries ([0x01, 0x00, 0x05, src] @ s)
        = Inr [\<lparr> entryType = 5, val = [src] \<rparr>, \<lparr> entryType = unat (s ! 2), val = drop 3 s \<rparr>]"
    by (simp add: read_entries_def read_def)
  show ?thesis
    using assms(1,4,5) e
    by (auto simp: parse_binary_data_def read_def unpack_le_def bind_err_def parse_row_def
        index_def new_KeyCredentialLink_def ConvertFromBinaryTime_def)
qed

lemma only_logged_refl [simp]: "only_logged s s"
  unfolding only_logged_def by (rule exI [of _ "[]"]) simp

lemma only_logged_trans: "only_logged s s' \<Longrightarrow> only_logged s' s'' \<Longrightarrow> only_logged s s''"
proof -
  assume "only_logged s s'" and "only_logged s' s''"
  then obtain l l' where "s' = s\<lparr>logged := logged s @ l\<rparr>" and "s'' = s'\<lparr>logged := logged s' @ l'\<rparr>"
    unfolding only_logged_def by blast
  then have "s'' = s\<lparr>logged := logged s @ (l @ l')\<rparr>" by simp
  then show ?thesis unfolding only_logged_def by blast
qed

lemma only_logged_logging [simp]: "only_logged s (logging lvl msg s)"
  unfolding only_logged_def logging_def by blast

lemma only_logged_logging': "only_logged s s' \<Longrightarrow> only_logged s (logging lvl msg s')"
  by (rule only_logged_trans [OF _ only_logged_logging])

lemma only_logged_get_user_info: "only_logged s (snd (get_user_info s n))"
  by (simp add: get_user_info_def split: option.splits)

lemma only_logged_get_sid_info: "only_logged s (snd (get_sid_info s n))"
  by (simp add: get_sid_info_def split: option.splits)

lemma only_logged_list_aces: "only_logged s (snd (list_aces E s aces))"
proof (induction aces arbitrary: s)
  case Nil
  then show ?case by simp
next
  case (Cons ace aces)
  show ?case
  proof (cases "sid_index s (formatCanonical E (Sid ace))")
    case None
    then show ?thesis by (simp add: get_sid_info_def)
  next
    case (Some r)
    obtain d n where r: "r = (d, n)" by (cases r)
    show ?thesis
      using Some r
      by (simp add: get_sid_info_def Let_def)
         (rule only_logged_trans [OF only_logged_logging Cons.IH])
  qed
qed

lemma list_aces_from_logging:
  assumes "list_aces E (logging lvl msg s) aces = (r, s')"
  shows "only_logged s s'"
proof -
  have "only_logged (logging lvl msg s) (snd (list_aces E (logging lvl msg s) aces))"
    by (rule only_logged_list_aces)
  with assms have "only_logged (logging lvl msg s) s'" by simp
  with only_logged_logging show ?thesis by (rule only_logged_trans)
qed

lemma only_logged_try: "only_logged s (snd (try_keycredentiallink E s tu))"
  unfolding try_keycredentiallink_def
  by (auto split: sum.splits prod.splits dest: list_aces_from_logging)

lemma only_logged_get_kcl: "only_logged s (snd (get_keycredentiallink E s))"
proof (cases "base_entry s (DN_delegate_to s)")
  case None
  then show ?thesis by (simp add: get_keycredentiallink_def)
next
  case (Some attrs)
  obtain r s1
    where t: "try_keycredentiallink E s \<lparr>entry_dn = DN_delegate_to s, raw_attributes = attrs\<rparr> = (r, s1)"
    by (cases "try_keycredentiallink E s \<lparr>entry_dn = DN_delegate_to s, raw_attributes = attrs\<rparr>")
  have s1: "only_logged s s1"
    using only_logged_try [of s E "\<lparr>entry_dn = DN_delegate_to s, raw_attributes = attrs\<rparr>"] t
    by simp
  show ?thesis
    using Some t s1
    by (auto simp: get_keycredentiallink_def Let_def only_logged_logging'
        split: sum.splits py_error.splits)
qed

lemma only_logged_list_again: "only_logged s (snd (list_again E s))"
  using only_logged_get_kcl [of s E]
  by (auto simp: list_again_def split: prod.splits sum.splits)

lemma only_logged_fields:
  assumes "only_logged s s'"
  shows "modifies s' = modifies s" and "base_entry s' = base_entry s"
    and "sam_index s' = sam_index s" and "sid_index s' = sid_index s"
    and "accept s' = accept s" and "delegate_to s' = delegate_to s"
    and "delegate_from s' = delegate_from s" and "SID_delegate_from s' = SID_delegate_from s"
    and "DN_delegate_to s' = DN_delegate_to s" and "result s' = result s"
  using assms unfolding only_logged_def by auto

lemma only_logged_mono: "only_logged s s' \<Longrightarrow> set (logged s) \<subseteq> set (logged s')"
  unfolding only_logged_def by auto

subsection \<open>C5: the record loop\<close>

text \<open>
  C5 as stated: a record header that declares a value length larger than the number of
  bytes left makes decoding fail. It does not: \<open>stream.read(length)\<close> returns the bytes
  that are left. The blob below is version \<open>0x200\<close>, then a header declaring \<open>length = 5\<close>
  for a KeyMaterial entry (type 3), then only 2 value bytes; it decodes, and the key
  material is the 2 bytes.
\<close>

theorem short_value_decodes_counterexample:
  "parse_binary_data
     \<lparr> b64decode = Inr, valid_utf8 = (\<lambda>_. True), epoch_plus_ticks = (Inr :: nat \<Rightarrow> py_error + nat) \<rparr>
     [] [0x00, 0x02, 0x00, 0x00, 0x05, 0x00, 0x03, 0xaa, 0xbb]
   = Inr ((new_KeyCredentialLink [] 0x200) \<lparr> KeyMaterial := Some [0xaa, 0xbb] \<rparr>)"
  by (simp add: parse_binary_data_def read_entries_def read_loop.simps read_def unpack_le_def
      unpack_HB_def bind_err_def parse_row_def new_KeyCredentialLink_def)

text \<open>
  C5 (amended): at each turn of the record loop, with \<open>s\<close> the bytes not yet read and
  \<open>data\<close> the entries read so far: when no byte is left the loop stops and returns the
  entries; when 1 or 2 bytes are left, decoding fails (struct.error); a record whose header
  declares no more bytes than follow it is read whole and the loop goes on after it; when
  a header declares a length larger than the number of bytes after it, the record loop
  does not fail: the entry's value is the bytes that are left and the loop ends. What
  decoding then returns is what the field decoder of the entry's tag makes of the short
  value. When the truncated record is the only one of the blob (\<open>v\<close> being the 4 bytes of
  the version), decoding succeeds for the hash tag (2), the key-material tag (3) and
  unknown tags (0 and above 9), fails with struct.error for the device-id tag (6) with
  fewer than 10 bytes left and with AttributeError for the timestamp tags (8, 9); after a
  source record, a truncated timestamp record fails with struct.error unless exactly 8
  bytes are left.
\<close>

theorem read_loop_header_cases:
  "read_loop (fst (read 3 [])) (snd (read 3 [])) data = Inr data \<and>
   (s \<noteq> [] \<and> length s < 3 \<longrightarrow>
      read_loop (fst (read 3 s)) (snd (read 3 s)) data = Inl StructError) \<and>
   (3 \<le> length s \<and> le_nat (take 2 s) \<le> length (drop 3 s) \<longrightarrow>
      read_loop (fst (read 3 s)) (snd (read 3 s)) data =
        read_loop (fst (read 3 (drop (3 + le_nat (take 2 s)) s)))
                  (snd (read 3 (drop (3 + le_nat (take 2 s)) s)))
                  (data @ [\<lparr> entryType = unat (s ! 2),
                            val = take (le_nat (take 2 s)) (drop 3 s) \<rparr>])) \<and>
   (3 \<le> length s \<and> length (drop 3 s) < le_nat (take 2 s) \<longrightarrow>
      read_loop (fst (read 3 s)) (snd (read 3 s)) data =
        Inr (data @ [\<lparr> entryType = unat (s ! 2), val = drop 3 s \<rparr>]) \<and>
      (length v = 4 \<longrightarrow>
         parse_binary_data lib d (v @ s) =
           parse_row lib (new_KeyCredentialLink d (le_nat v))
             \<lparr> entryType = unat (s ! 2), val = drop 3 s \<rparr> \<and>
         (unat (s ! 2) = 2 \<or> unat (s ! 2) = 3 \<or> unat (s ! 2) = 0 \<or> 9 < unat (s ! 2) \<longrightarrow>
            (\<exists>r. parse_binary_data lib d (v @ s) = Inr r)) \<and>
         (unat (s ! 2) = 6 \<and> length (drop 3 s) < 10 \<longrightarrow>
            parse_binary_data lib d (v @ s) = Inl StructError) \<and>
         (unat (s ! 2) = 8 \<or> unat (s ! 2) = 9 \<longrightarrow>
            parse_binary_data lib d (v @ s) = Inl AttributeError \<and>
            (length (drop 3 s) \<noteq> 8 \<longrightarrow>
               parse_binary_data lib d (v @ [0x01, 0x00, 0x05, src] @ s) = Inl StructError))))"
proof -
  have g1: "read_loop (fst (read 3 [])) (snd (read 3 [])) data = Inr data"
    by (simp add: read_def read_loop_Nil)
  have g2: "read_loop (fst (read 3 s)) (snd (read 3 s)) data = Inl StructError"
    if "s \<noteq> [] \<and> length s < 3"
    using that by (subst read_loop.simps) (simp add: read_def unpack_HB_def)
  have g3: "read_loop (fst (read 3 s)) (snd (read 3 s)) data =
        read_loop (fst (read 3 (drop (3 + le_nat (take 2 s)) s)))
                  (snd (read 3 (drop (3 + le_nat (take 2 s)) s)))
                  (data @ [\<lparr> entryType = unat (s ! 2),
                            val = take (le_nat (take 2 s)) (drop 3 s) \<rparr>])"
    if "3 \<le> length s \<and> le_nat (take 2 s) \<le> length (drop 3 s)"
    using read_loop_complete [of s data] that by (simp add: read_def)
  have g4: "read_loop (fst (read 3 s)) (snd (read 3 s)) data =
        Inr (data @ [\<lparr> entryType = unat (s ! 2), val = drop 3 s \<rparr>])"
    if "3 \<le> length s \<and> length (drop 3 s) < le_nat (take 2 s)"
    using read_loop_truncated [of s data] that by (simp add: read_def)
  have g5: "parse_binary_data lib d (v @ s) =
           parse_row lib (new_KeyCredentialLink d (le_nat v))
             \<lparr> entryType = unat (s ! 2), val = drop 3 s \<rparr>"
    if "3 \<le> length s \<and> length (drop 3 s) < le_nat (take 2 s)" and "length v = 4"
    using parse_truncated_single [of v s lib d] that by simp
  have g6: "\<exists>r. parse_binary_data lib d (v @ s) = Inr r"
    if "3 \<le> length s \<and> length (drop 3 s) < le_nat (take 2 s)" and "length v = 4"
      and "unat (s ! 2) = 2 \<or> unat (s ! 2) = 3 \<or> unat (s ! 2) = 0 \<or> 9 < unat (s ! 2)"
    using that(3) by (auto simp: g5 [OF that(1,2)] parse_row_def)
  have g7: "parse_binary_data lib d (v @ s) = Inl StructError"
    if "3 \<le> length s \<and> length (drop 3 s) < le_nat (take 2 s)" and "length v = 4"
      and "unat (s ! 2) = 6 \<and> length (drop 3 s) < 10"
    using that(3) Guid_short [of "drop 3 s"]
    by (simp add: g5 [OF that(1,2)] parse_row_def bind_err_def)
  have g8: "parse_binary_data lib d (v @ s) = Inl AttributeError"
    if "3 \<le> length s \<and> length (drop 3 s) < le_nat (take 2 s)" and "length v = 4"
      and "unat (s ! 2) = 8 \<or> unat (s ! 2) = 9"
    using that(3)
    by (simp add: g5 [OF that(1,2)] parse_row_timestamp new_KeyCredentialLink_def)
  have g9: "parse_binary_data lib d (v @ [0x01, 0x00, 0x05, src] @ s) = Inl StructError"
    if "3 \<le> length s \<and> length (drop 3 s) < le_nat (take 2 s)" and "length v = 4"
      and "unat (s ! 2) = 8 \<or> unat (s ! 2) = 9" and "length (drop 3 s) \<noteq> 8"
    using parse_truncated_after_source [of v s lib d src] that by simp
  show ?thesis
    using g1 g2 g3 g4 g5 g6 g7 g8 g9 by blast
qed


theorem read_loop_header_cases_witness:
  "read_loop (fst (read 3 [0x05, 0x00])) (snd (read 3 [0x05, 0x00])) [] = Inl StructError \<and>
   read_loop (fst (read 3 [0x01, 0x00, 0x05, 0x00, 0x05, 0x00, 0x03, 0xaa, 0xbb]))
             (snd (read 3 [0x01, 0x00, 0x05, 0x00, 0x05, 0x00, 0x03, 0xaa, 0xbb])) []
     = Inr [\<lparr> entryType = 5, val = [0x00] \<rparr>, \<lparr> entryType = 3, val = [0xaa, 0xbb] \<rparr>] \<and>
   read_loop (fst (read 3 [0x05, 0x00, 0x03, 0xaa, 0xbb]))
             (snd (read 3 [0x05, 0x00, 0x03, 0xaa, 0xbb])) []
     = Inr [\<lparr> entryType = 3, val = [0xaa, 0xbb] \<rparr>] \<and>
   parse_binary_data
     \<lparr> b64decode = Inr, valid_utf8 = (\<lambda>_. True), epoch_plus_ticks = (Inr :: nat \<Rightarrow> py_error + nat) \<rparr>
     [] ([0x00, 0x02, 0x00, 0x00] @ [0x05, 0x00, 0x03, 0xaa, 0xbb])
     = Inr ((new_KeyCredentialLink [] 0x200) \<lparr> KeyMaterial := Some [0xaa, 0xbb] \<rparr>) \<and>
   parse_binary_data
     \<lparr> b64decode = Inr, valid_utf8 = (\<lambda>_. True), epoch_plus_ticks = (Inr :: nat \<Rightarrow> py_error + nat) \<rparr>
     [] ([0x00, 0x02, 0x00, 0x00] @ [0x05, 0x00, 0x06, 0xaa, 0xbb])
     = Inl StructError \<and>
   parse_binary_data
     \<lparr> b64decode = Inr, valid_utf8 = (\<lambda>_. True), epoch_plus_ticks = (Inr :: nat \<Rightarrow> py_error + nat) \<rparr>
     [] ([0x00, 0x02, 0x00, 0x00] @ [0x08, 0x00, 0x09, 0x00, 0x00])
     = Inl AttributeError \<and>
   parse_binary_data
     \<lparr> b64decode = Inr, valid_utf8 = (\<lambda>_. True), epoch_plus_ticks = (Inr :: nat \<Rightarrow> py_error + nat) \<rparr>
     [] ([0x00, 0x02, 0x00, 0x00] @ [0x01, 0x00, 0x05, 0x00] @ [0x08, 0x00, 0x09, 0x00, 0x00])
     = Inl StructError"
proof -
  let ?lib = "\<lparr> b64decode = Inr, valid_utf8 = (\<lambda>_. True),
                epoch_plus_ticks = (Inr :: nat \<Rightarrow> py_error + nat) \<rparr>"
  note t = read_loop_header_cases [where lib = ?lib and d = "[]" and v = "[0x00, 0x02, 0x00, 0x00]"
      and src = "0x00"]
  have w1: "read_loop (fst (read 3 [0x05, 0x00])) (snd (read 3 [0x05, 0x00])) [] = Inl StructError"
    using t [where s = "[0x05, 0x00]" and data = "[]"] by simp
  have w3: "read_loop (fst (read 3 [0x05, 0x00, 0x03, 0xaa, 0xbb]))
             (snd (read 3 [0x05, 0x00, 0x03, 0xaa, 0xbb])) data
     = Inr (data @ [\<lparr> entryType = 3, val = [0xaa, 0xbb] \<rparr>])" for data
    using t [where s = "[0x05, 0x00, 0x03, 0xaa, 0xbb]" and data = data] by simp
  have w2: "read_loop (fst (read 3 [0x01, 0x00, 0x05, 0x00, 0x05, 0x00, 0x03, 0xaa, 0xbb]))
             (snd (read 3 [0x01, 0x00, 0x05, 0x00, 0x05, 0x00, 0x03, 0xaa, 0xbb])) []
     = Inr [\<lparr> entryType = 5, val = [0x00] \<rparr>, \<lparr> entryType = 3, val = [0xaa, 0xbb] \<rparr>]"
    using t [where s = "[0x01, 0x00, 0x05, 0x00, 0x05, 0x00, 0x03, 0xaa, 0xbb]" and data = "[]"]
          w3 [of "[\<lparr> entryType = 5, val = [0x00] \<rparr>]"]
    by simp
  have w4: "parse_binary_data ?lib [] ([0x00, 0x02, 0x00, 0x00] @ [0x05, 0x00, 0x03, 0xaa, 0xbb])
     = Inr ((new_KeyCredentialLink [] 0x200) \<lparr> KeyMaterial := Some [0xaa, 0xbb] \<rparr>)"
    using t [where s = "[0x05, 0x00, 0x03, 0xaa, 0xbb]" and data = "[]"]
    by (simp add: parse_row_def)
  have w5: "parse_binary_data ?lib [] ([0x00, 0x02, 0x00, 0x00] @ [0x05, 0x00, 0x06, 0xaa, 0xbb])
     = Inl StructError"
    using t [where s = "[0x05, 0x00, 0x06, 0xaa, 0xbb]" and data = "[]"]
    by (simp add: parse_row_def Guid_def bind_err_def unpack_le_def slice_def)
  have w6: "parse_binary_data ?lib [] ([0x00, 0x02, 0x00, 0x00] @ [0x08, 0x00, 0x09, 0x00, 0x00])
     = Inl AttributeError"
    and w7: "parse_binary_data ?lib []
       ([0x00, 0x02, 0x00, 0x00] @ [0x01, 0x00, 0x05, 0x00] @ [0x08, 0x00, 0x09, 0x00, 0x00])
     = Inl StructError"
    using t [where s = "[0x08, 0x00, 0x09, 0x00, 0x00]" and data = "[]"]
    by (simp_all add: parse_row_def new_KeyCredentialLink_def)
  from w1 w2 w3 [of "[]"] w4 w5 w6 w7 show ?thesis by simp
qed

subsection \<open>C6: Guid\<close>

text \<open>
  C6: the 16 bytes of the GUID \<open>00112233-4455-6677-8899-aabbccddeeff\<close> (first three
  groups little-endian) should format to that string. \<open>Guid\<close> pads the first group to 4
  digits with \<open>rjust(4, '0')\<close>, not to 8, so the leading zero byte is lost: the result is
  \<open>112233-4455-6677-8899-aabbccddeeff\<close>.
\<close>

theorem Guid_drops_leading_zeros:
  "Guid [0x33, 0x22, 0x11, 0x00, 0x55, 0x44, 0x77, 0x66,
         0x88, 0x99, 0xaa, 0xbb, 0xcc, 0xdd, 0xee, 0xff]
     = Inr ''112233-4455-6677-8899-aabbccddeeff'' \<and>
   Guid [0x33, 0x22, 0x11, 0x00, 0x55, 0x44, 0x77, 0x66,
         0x88, 0x99, 0xaa, 0xbb, 0xcc, 0xdd, 0xee, 0xff]
     \<noteq> Inr ''00112233-4455-6677-8899-aabbccddeeff''"
  by (simp add: Guid_def bind_err_def unpack_le_def unpack_be_def be_nat_def slice_def
      rjust_def hexlify_def hexchar_def hex.simps)

subsection \<open>C7: CustomKeyInformation\<close>

text \<open>
  C7: decoding an input of at least 2 bytes should never raise, also when the reserved
  field is only partly there. As soon as one byte of the reserved field is present (an
  input of 7 bytes or more), line 123 calls \<open>data.rjust(10, 'b\x00')\<close> on a bytes
  object with a \<open>str\<close> fill, and the constructor raises TypeError. Inputs of 2 to 6
  bytes do decode (lemma \<open>CustomKeyInformation_before_reserved\<close>).
\<close>

theorem CustomKeyInformation_reserved_TypeError:
  assumes "7 \<le> length keyMaterial"
  shows "CustomKeyInformation keyMaterial = Inl TypeError"
proof -
  obtain b0 b1 b2 b3 b4 b5 b6 rest
    where km: "keyMaterial = b0 # b1 # b2 # b3 # b4 # b5 # b6 # rest"
    using assms by (auto simp: Suc_le_length_iff numeral_eq_Suc)
  show ?thesis
    unfolding km
    by (simp add: CustomKeyInformation_def read_def unpack_le_def bind_err_def opt_field_def
        bytes_rjust_def reserved_fill_def)
qed

theorem CustomKeyInformation_reserved_TypeError_witness:
  "7 \<le> length [0x01, 0x00, 0x03, 0x01, 0x01, 0x05, 0x00 :: byte] \<and>
   CustomKeyInformation [0x01, 0x00, 0x03, 0x01, 0x01, 0x05, 0x00] = Inl TypeError"
proof -
  have h: "7 \<le> length [0x01, 0x00, 0x03, 0x01, 0x01, 0x05, 0x00 :: byte]" by simp
  show ?thesis using h CustomKeyInformation_reserved_TypeError [OF h] by simp
qed

subsection \<open>C9: ConvertToBinaryIdentifier\<close>

text \<open>
  C9: for the two legacy versions (\<open>Version0\<close>, \<open>Version1\<close>) the key identifier is
  decoded by \<open>unhexlify\<close>; for every other version, known or not, the result is that of
  \<open>b64decode\<close>: no version makes the function raise an error of its own.
\<close>

theorem ConvertToBinaryIdentifier_dispatch:
  "(ver = Version0 \<or> ver = Version1 \<longrightarrow>
      ConvertToBinaryIdentifier dec keyIdentifier ver = unhexlify keyIdentifier) \<and>
   (ver \<noteq> Version0 \<and> ver \<noteq> Version1 \<longrightarrow>
      ConvertToBinaryIdentifier dec keyIdentifier ver = dec keyIdentifier)"
  by (simp add: ConvertToBinaryIdentifier_def)

theorem ConvertToBinaryIdentifier_dispatch_witness:
  "ConvertToBinaryIdentifier (\<lambda>k. Inr (rev k)) [0x30, 0x41] Version1 = Inr [0x0a] \<and>
   ConvertToBinaryIdentifier (\<lambda>k. Inr (rev k)) [0x30, 0x41] 0x300 = Inr [0x41, 0x30]"
  using ConvertToBinaryIdentifier_dispatch
          [where ver = Version1 and dec = "\<lambda>k. Inr (rev k)" and keyIdentifier = "[0x30, 0x41]"]
        ConvertToBinaryIdentifier_dispatch
          [where ver = "0x300" and dec = "\<lambda>k. Inr (rev k)" and keyIdentifier = "[0x30, 0x41]"]
  by (simp add: Version0_def Version1_def hexval_def bind_err_def)

subsection \<open>C10: a timestamp entry before any source entry\<close>

text \<open>
  C10: when the entries of a blob contain a timestamp entry (type 8 or 9) with no
  KeySource entry (type 5) before it, decoding fails: \<open>self.source\<close> is assigned only
  by a KeySource entry, and the timestamp branch reads it.
\<close>

theorem timestamp_before_source_fails:
  assumes "read_entries (snd (read 4 binary_data)) = Inr rows"
    and "i < length rows"
    and "entryType (rows ! i) = 8 \<or> entryType (rows ! i) = 9"
    and "\<forall>j<i. entryType (rows ! j) \<noteq> 5"
  shows "\<exists>e. parse_binary_data lib d binary_data = Inl e"
proof (cases "unpack_le 4 (fst (read 4 binary_data))")
  case (Inl e)
  then show ?thesis by (simp add: parse_binary_data_def bind_err_def)
next
  case (Inr v)
  have "source (new_KeyCredentialLink d v :: 'a KeyCredentialLink) = None"
    by (simp add: new_KeyCredentialLink_def)
  from parse_rows_timestamp [OF this assms(2,3,4)] Inr assms(1)
  show ?thesis by (simp add: parse_binary_data_def bind_err_def)
qed

theorem timestamp_before_source_fails_witness:
  "read_entries (snd (read 4 [0x00, 0x02, 0x00, 0x00, 0x08, 0x00, 0x08, 0, 0, 0, 0, 0, 0, 0, 0]))
     = Inr [\<lparr> entryType = 8, val = [0, 0, 0, 0, 0, 0, 0, 0] \<rparr>] \<and>
   parse_binary_data
     \<lparr> b64decode = Inr, valid_utf8 = (\<lambda>_. True), epoch_plus_ticks = (Inr :: nat \<Rightarrow> py_error + nat) \<rparr>
     [] [0x00, 0x02, 0x00, 0x00, 0x08, 0x00, 0x08, 0, 0, 0, 0, 0, 0, 0, 0] = Inl AttributeError"
proof -
  have h: "read_entries (snd (read 4 [0x00, 0x02, 0x00, 0x00, 0x08, 0x00, 0x08, 0, 0, 0, 0, 0, 0, 0, 0]))
     = Inr [\<lparr> entryType = 8, val = [0, 0, 0, 0, 0, 0, 0, 0] \<rparr>]"
    by (simp add: read_entries_def read_loop.simps read_def unpack_HB_def)
  have "\<exists>e. parse_binary_data
     \<lparr> b64decode = Inr, valid_utf8 = (\<lambda>_. True), epoch_plus_ticks = (Inr :: nat \<Rightarrow> py_error + nat) \<rparr>
     [] [0x00, 0x02, 0x00, 0x00, 0x08, 0x00, 0x08, 0, 0, 0, 0, 0, 0, 0, 0] = Inl e"
    by (rule timestamp_before_source_fails [OF h, of 0]) simp_all
  then show ?thesis using h
    by (simp add: parse_binary_data_def read_def unpack_le_def bind_err_def parse_row_def
        new_KeyCredentialLink_def)
qed

section \<open>Properties of the directory operations\<close>

subsection \<open>Helper lemmas\<close>

lemma get_kcl_entry_dn:
  "fst (get_keycredentiallink E s) = Inr (Some (sd, tu)) \<Longrightarrow> entry_dn tu = DN_delegate_to s"
  by (auto simp: get_keycredentiallink_def Let_def split: option.splits prod.splits sum.splits py_error.splits)

lemma modifies_report_result [simp]: "modifies (report_result ok s) = modifies s"
  by (simp add: report_result_def logging_def)

lemma modifies_modify [simp]: "modifies (modify s d a v) = modifies s @ [(d, a, v)]"
  by (simp add: modify_def Let_def)

lemma modifies_list_again [simp]: "modifies (snd (list_again E s)) = modifies s"
  by (rule only_logged_fields(1) [OF only_logged_list_again])

lemma get_user_info_found:
  "sam_index s n = Some (d, sid) \<Longrightarrow> get_user_info s n = (Some (d, sid), s)"
  by (simp add: get_user_info_def)

lemma removeActor_no_match:
  "sid \<notin> set (dacl_sids E sd) \<Longrightarrow> removeActor E sd sid = sd"
proof -
  assume "sid \<notin> set (dacl_sids E sd)"
  then have "filter (\<lambda>ace. sid \<noteq> formatCanonical E (Sid ace)) (Dacl sd) = Dacl sd"
    by (auto simp: dacl_sids_def filter_id_conv)
  then show ?thesis by (simp add: removeActor_def)
qed

lemma write_action_unfold:
  assumes "sam_index self from = Some (d1, sid)"
    and "sam_index self (delegate_to self) = Some (d2, sid2)"
    and "get_keycredentiallink E
           (self\<lparr>delegate_from := from, SID_delegate_from := sid, DN_delegate_to := d2\<rparr>)
         = (Inr (Some (sd, tu)), self3)"
  shows "write_action E from self =
     (if SID_delegate_from self3 \<notin> set (dacl_sids E sd) then
        list_again E
          (report_result
             [(INFO, ''Delegation rights modified successfully!''),
              (INFO, delegate_from self3 @ '' can now impersonate users on ''
                     @ delegate_to self3 @ '' via S4U2Proxy'')]
             (modify self3 (entry_dn tu) attribute_name
                [getData E (sd\<lparr>Dacl := Dacl sd @ [create_allow_ace E (SID_delegate_from self3)]\<rparr>)]))
      else
        list_again E
          (logging INFO ''Not modifying the delegation rights.''
             (logging INFO (delegate_from self3 @ '' can already impersonate users on ''
                            @ delegate_to self3 @ '' via S4U2Proxy'') self3)))"
  using assms by (simp add: write_action_def get_user_info_found)

lemma remove_unfold:
  assumes "sam_index self from = Some (d1, sid)"
    and "sam_index self (delegate_to self) = Some (d2, sid2)"
    and "get_keycredentiallink E
           (self\<lparr>delegate_from := from, SID_delegate_from := sid, DN_delegate_to := d2\<rparr>)
         = (Inr (Some (sd, tu)), self3)"
  shows "remove E from self =
     list_again E
       (report_result [(INFO, ''Delegation rights modified successfully!'')]
          (modify self3 (entry_dn tu) attribute_name
             [getData E (removeActor E sd (SID_delegate_from self3))]))"
  using assms by (simp add: remove_def get_user_info_found)

lemma flush_unfold:
  assumes "sam_index self (delegate_to self) = Some (d2, sid2)"
    and "get_keycredentiallink E (self\<lparr>DN_delegate_to := d2\<rparr>) = (Inr (Some (sd, tu)), self2)"
  shows "flush E self =
     list_again E
       (report_result [(INFO, ''Delegation rights flushed successfully!'')]
          (modify self2 (entry_dn tu) attribute_name []))"
  using assms by (simp add: flush_def get_user_info_found)

lemma fetched_state:
  assumes "fst (get_keycredentiallink E s) = Inr (Some (sd, tu))"
  obtains s' where "get_keycredentiallink E s = (Inr (Some (sd, tu)), s')"
    and "only_logged s s'" and "entry_dn tu = DN_delegate_to s"
proof -
  obtain s' where g: "get_keycredentiallink E s = (Inr (Some (sd, tu)), s')"
    using assms by (cases "get_keycredentiallink E s") simp
  have "only_logged s s'"
    using only_logged_get_kcl [of s E] g by simp
  with g get_kcl_entry_dn [OF assms] that show ?thesis by blast
qed

lemma write_action_present:
  assumes a1: "sam_index self from = Some (d1, sid)"
    and a2: "sam_index self (delegate_to self) = Some (d2, sid2)"
    and a3: "fst (get_keycredentiallink E
                (self\<lparr>delegate_from := from, SID_delegate_from := sid, DN_delegate_to := d2\<rparr>))
             = Inr (Some (sd, tu))"
    and p: "sid \<in> set (dacl_sids E sd)"
  shows "modifies (snd (write_action E from self)) = modifies self"
    and "(INFO, ''Not modifying the delegation rights.'') \<in> set (logged (snd (write_action E from self)))"
proof -
  let ?s = "self\<lparr>delegate_from := from, SID_delegate_from := sid, DN_delegate_to := d2\<rparr>"
  from a3 obtain self3 where g: "get_keycredentiallink E ?s = (Inr (Some (sd, tu)), self3)"
    and ol: "only_logged ?s self3"
    by (rule fetched_state)
  have f3: "SID_delegate_from self3 = sid" "modifies self3 = modifies self"
    using only_logged_fields [OF ol] by simp_all
  let ?m = "logging INFO ''Not modifying the delegation rights.''
             (logging INFO (delegate_from self3 @ '' can already impersonate users on ''
                            @ delegate_to self3 @ '' via S4U2Proxy'') self3)"
  have w: "write_action E from self = list_again E ?m"
    using p f3 by (simp add: write_action_unfold [OF a1 a2 g])
  show "modifies (snd (write_action E from self)) = modifies self"
    by (simp add: w f3 logging_def)
  have "(INFO, ''Not modifying the delegation rights.'') \<in> set (logged ?m)"
    by (simp add: logging_def)
  then show "(INFO, ''Not modifying the delegation rights.'') \<in> set (logged (snd (write_action E from self)))"
    using only_logged_mono [OF only_logged_list_again [of ?m E]] w by auto
qed

lemma write_action_absent:
  assumes a1: "sam_index self from = Some (d1, sid)"
    and a2: "sam_index self (delegate_to self) = Some (d2, sid2)"
    and a3: "fst (get_keycredentiallink E
                (self\<lparr>delegate_from := from, SID_delegate_from := sid, DN_delegate_to := d2\<rparr>))
             = Inr (Some (sd, tu))"
    and p: "sid \<notin> set (dacl_sids E sd)"
  shows "modifies (snd (write_action E from self))
           = modifies self @ [(d2, attribute_name, [getData E (addActor E sd sid)])]"
proof -
  let ?s = "self\<lparr>delegate_from := from, SID_delegate_from := sid, DN_delegate_to := d2\<rparr>"
  from a3 obtain self3 where g: "get_keycredentiallink E ?s = (Inr (Some (sd, tu)), self3)"
    and ol: "only_logged ?s self3" and tu: "entry_dn tu = DN_delegate_to ?s"
    by (rule fetched_state)
  have f3: "SID_delegate_from self3 = sid" "modifies self3 = modifies self"
    using only_logged_fields [OF ol] by simp_all
  show ?thesis
    using p f3 tu by (simp add: write_action_unfold [OF a1 a2 g] addActor_def)
qed

lemma remove_modifies:
  assumes a1: "sam_index self from = Some (d1, sid)"
    and a2: "sam_index self (delegate_to self) = Some (d2, sid2)"
    and a3: "fst (get_keycredentiallink E
                (self\<lparr>delegate_from := from, SID_delegate_from := sid, DN_delegate_to := d2\<rparr>))
             = Inr (Some (sd, tu))"
  shows "modifies (snd (remove E from self))
           = modifies self @ [(d2, attribute_name, [getData E (removeActor E sd sid)])]"
proof -
  let ?s = "self\<lparr>delegate_from := from, SID_delegate_from := sid, DN_delegate_to := d2\<rparr>"
  from a3 obtain self3 where g: "get_keycredentiallink E ?s = (Inr (Some (sd, tu)), self3)"
    and ol: "only_logged ?s self3" and tu: "entry_dn tu = DN_delegate_to ?s"
    by (rule fetched_state)
  have f3: "SID_delegate_from self3 = sid" "modifies self3 = modifies self"
    using only_logged_fields [OF ol] by simp_all
  show ?thesis
    using f3 tu by (simp add: remove_unfold [OF a1 a2 g])
qed

lemma flush_modifies:
  assumes a2: "sam_index self (delegate_to self) = Some (d2, sid2)"
    and a4: "fst (get_keycredentiallink E (self\<lparr>DN_delegate_to := d2\<rparr>)) = Inr (Some (sd, tu))"
  shows "modifies (snd (flush E self)) = modifies self @ [(d2, attribute_name, [])]"
proof -
  let ?t = "self\<lparr>DN_delegate_to := d2\<rparr>"
  from a4 obtain self2 where g: "get_keycredentiallink E ?t = (Inr (Some (sd, tu)), self2)"
    and ol: "only_logged ?t self2" and tu: "entry_dn tu = DN_delegate_to ?t"
    by (rule fetched_state)
  have f2: "modifies self2 = modifies self"
    using only_logged_fields(1) [OF ol] by simp
  show ?thesis
    using f2 tu by (simp add: flush_unfold [OF a2 g])
qed

lemma sid_index_logging [simp]: "sid_index (logging lvl msg s) = sid_index s"
  by (simp add: logging_def)

lemma list_aces_fst:
  "fst (list_aces E s aces) =
     (if \<forall>ace\<in>set aces. sid_index s (formatCanonical E (Sid ace)) \<noteq> None then Inr ()
      else Inl TypeError)"
proof (induction aces arbitrary: s)
  case Nil
  then show ?case by simp
next
  case (Cons ace aces)
  show ?case
  proof (cases "sid_index s (formatCanonical E (Sid ace))")
    case None
    then show ?thesis by (simp add: get_sid_info_def)
  next
    case (Some r)
    obtain d n where r: "r = (d, n)" by (cases r)
    show ?thesis
      using Some r by (simp add: get_sid_info_def Let_def Cons.IH)
  qed
qed

lemma try_keycredentiallink_fst:
  assumes "raw_attributes tu ''msDS-KeyCredentialLink'' = raw # rest"
    and "DN_binary_KeyCredentialLink (py E) raw = Inr k"
    and "sd_from_bytes E raw = Inr sd"
  shows "fst (try_keycredentiallink E s tu) =
     (if \<forall>ace\<in>set (Dacl sd). sid_index s (formatCanonical E (Sid ace)) \<noteq> None then Inr sd
      else Inl TypeError)"
proof (cases "Dacl sd")
  case Nil
  then show ?thesis using assms by (simp add: try_keycredentiallink_def index_def)
next
  case (Cons a as)
  let ?s = "logging INFO ''Accounts allowed to act on behalf of other identity:'' s"
  obtain r s1 where l: "list_aces E ?s (Dacl sd) = (r, s1)"
    by (cases "list_aces E ?s (Dacl sd)")
  have "r = (if \<forall>ace\<in>set (Dacl sd). sid_index s (formatCanonical E (Sid ace)) \<noteq> None then Inr ()
      else Inl TypeError)"
    using list_aces_fst [of E ?s "Dacl sd"] l by simp
  then show ?thesis
    using assms Cons l by (simp add: try_keycredentiallink_def index_def split: if_splits)
qed

lemma get_keycredentiallink_fst:
  assumes "base_entry s (DN_delegate_to s) = Some attrs"
    and "attrs ''msDS-KeyCredentialLink'' = raw # rest"
    and "DN_binary_KeyCredentialLink (py E) raw = Inr k"
    and "sd_from_bytes E raw = Inr sd"
  shows "fst (get_keycredentiallink E s) =
     (if \<forall>ace\<in>set (Dacl sd). sid_index s (formatCanonical E (Sid ace)) \<noteq> None
      then Inr (Some (sd, \<lparr>entry_dn = DN_delegate_to s, raw_attributes = attrs\<rparr>))
      else Inl TypeError)"
proof -
  let ?tu = "\<lparr>entry_dn = DN_delegate_to s, raw_attributes = attrs\<rparr>"
  obtain r s1 where t: "try_keycredentiallink E s ?tu = (r, s1)"
    by (cases "try_keycredentiallink E s ?tu")
  have "r = (if \<forall>ace\<in>set (Dacl sd). sid_index s (formatCanonical E (Sid ace)) \<noteq> None then Inr sd
      else Inl TypeError)"
    using try_keycredentiallink_fst [of ?tu raw rest E k sd s] assms t by simp
  then show ?thesis
    using assms(1) t by (simp add: get_keycredentiallink_def Let_def split: if_splits)
qed

lemma demo_kcl:
  "DN_binary_KeyCredentialLink (py (demo_env aces)) demo_raw
     = Inr (new_KeyCredentialLink [0x43, 0x4e, 0x3d, 0x78] 0x200)"
  by (simp add: DN_binary_KeyCredentialLink_def demo_env_def demo_raw_def index_def hexval_def
      bind_err_def parse_binary_data_def read_entries_def read_loop.simps read_def unpack_le_def)

lemma demo_env_simps:
  "sd_from_bytes (demo_env aces) demo_raw = Inr (demo_sd aces)"
  "formatCanonical (demo_env aces) (Parsed sid) = sid"
  "formatCanonical (demo_env aces) (Decoded sid) = sid"
  "fromCanonical (demo_env aces) sid = Parsed sid"
  "getData (demo_env aces) sd =
     Sacl sd @ concat (map (\<lambda>ace. map (\<lambda>c. of_nat (of_char c))
                                 (case Sid ace of Parsed s \<Rightarrow> s | Decoded s \<Rightarrow> s))
                       (Dacl sd))"
  "allow_mask (demo_env aces) = 983551"
  by (simp_all add: demo_env_def demo_sd_def formatCanonical_def fromCanonical_def)

lemma demo_fetch:
  assumes "base_entry s (DN_delegate_to s) = Some demo_attrs"
    and "\<forall>ace\<in>set aces. sid_index s (formatCanonical (demo_env aces) (Sid ace)) \<noteq> None"
  shows "fst (get_keycredentiallink (demo_env aces) s)
         = Inr (Some (demo_sd aces, \<lparr>entry_dn = DN_delegate_to s, raw_attributes = demo_attrs\<rparr>))"
proof -
  have "demo_attrs ''msDS-KeyCredentialLink'' = demo_raw # []"
    by (simp add: demo_attrs_def)
  from get_keycredentiallink_fst [OF assms(1) this demo_kcl demo_env_simps(1)] assms(2)
  show ?thesis by (simp add: demo_env_simps demo_sd_def)
qed

lemma demo_state_simps:
  "sam_index demo_state ''SRV$'' = Some (''CN=SRV'', ''S-1-5-21-1-2-3-1000'')"
  "sam_index demo_state ''evil$'' = Some (''CN=evil'', ''S-1-5-21-1-2-3-1104'')"
  "sam_index demo_state ''other$'' = Some (''CN=other'', ''S-1-5-21-1-2-3-1105'')"
  "delegate_to demo_state = ''SRV$''"
  "base_entry demo_state ''CN=SRV'' = Some demo_attrs"
  "sid_index demo_state ''S-1-5-21-1-2-3-1104'' = Some (''CN=evil'', ''evil$'')"
  "modifies demo_state = []"
  "accept demo_state d a v = (0, [])"
  by (simp_all add: demo_state_def)

lemma base_entry_report_result [simp]: "base_entry (report_result ok s) = base_entry s"
  by (simp add: report_result_def logging_def)

lemma base_entry_modify:
  "base_entry (modify s d attribute_name []) =
     (if fst (accept s d attribute_name []) = 0 then cleared d (base_entry s) else base_entry s)"
  by (simp add: modify_def Let_def cleared_def)

lemma cleared_idem: "cleared d (cleared d b) = cleared d b"
  by (auto simp: cleared_def fun_eq_iff option.map_comp comp_def)

lemma base_entry_list_again [simp]: "base_entry (snd (list_again E s)) = base_entry s"
  by (rule only_logged_fields(2) [OF only_logged_list_again])

lemma flush_frame:
  "sam_index (snd (flush E s)) = sam_index s \<and> delegate_to (snd (flush E s)) = delegate_to s \<and>
   accept (snd (flush E s)) = accept s"
proof (cases "sam_index s (delegate_to s)")
  case None
  then show ?thesis by (simp add: flush_def get_user_info_def logging_def)
next
  case (Some r)
  obtain d x where r: "r = (d, x)" by (cases r)
  let ?t = "s\<lparr>DN_delegate_to := d\<rparr>"
  obtain res s2 where g: "get_keycredentiallink E ?t = (res, s2)"
    by (cases "get_keycredentiallink E ?t")
  have ol: "only_logged ?t s2" using only_logged_get_kcl [of ?t E] g by simp
  note f = only_logged_fields [OF ol]
  have la: "only_logged m (snd (list_again E m))" for m by (rule only_logged_list_again)
  show ?thesis
    using Some r g f only_logged_fields [OF la]
    by (auto simp: flush_def get_user_info_found report_result_def logging_def modify_def Let_def
        split: sum.splits option.splits prod.splits)
qed

lemma flush_base_entry:
  "base_entry (snd (flush E s)) = base_entry s \<or>
   (\<exists>d x. sam_index s (delegate_to s) = Some (d, x) \<and>
          base_entry (snd (flush E s)) = cleared d (base_entry s))"
proof (cases "sam_index s (delegate_to s)")
  case None
  then show ?thesis by (simp add: flush_def get_user_info_def logging_def)
next
  case (Some r)
  obtain d x where r: "r = (d, x)" by (cases r)
  let ?t = "s\<lparr>DN_delegate_to := d\<rparr>"
  obtain res s2 where g: "get_keycredentiallink E ?t = (res, s2)"
    by (cases "get_keycredentiallink E ?t")
  have ol: "only_logged ?t s2" using only_logged_get_kcl [of ?t E] g by simp
  have b2: "base_entry s2 = base_entry s" using only_logged_fields(2) [OF ol] by simp
  show ?thesis
  proof (cases res)
    case (Inl e)
    then show ?thesis using Some r g b2 by (simp add: flush_def get_user_info_found)
  next
    case (Inr v)
    show ?thesis
    proof (cases v)
      case None
      then show ?thesis using Some r g b2 Inr by (simp add: flush_def get_user_info_found)
    next
      case (Some p)
      obtain sd tu where p: "p = (sd, tu)" by (cases p)
      have "fst (get_keycredentiallink E ?t) = Inr (Some (sd, tu))"
        using g Inr Some p by simp
      from get_kcl_entry_dn [OF this] have tu: "entry_dn tu = d" by simp
      have "base_entry (snd (flush E s)) =
              (if fst (accept s2 d attribute_name []) = 0 then cleared d (base_entry s) else base_entry s)"
        using \<open>sam_index s (delegate_to s) = Some r\<close> r g Inr Some p tu b2
        by (simp add: flush_def get_user_info_found base_entry_modify)
      then show ?thesis
        using \<open>sam_index s (delegate_to s) = Some r\<close> r by auto
    qed
  qed
qed

lemma formatCanonical_fromCanonical: "formatCanonical E (fromCanonical E sid) = sid"
  by (simp add: formatCanonical_def fromCanonical_def)

lemma addActor_absent:
  "sid \<notin> set (dacl_sids E sd) \<Longrightarrow>
   addActor E sd sid = sd\<lparr>Dacl := Dacl sd @ [create_allow_ace E sid]\<rparr>"
  by (simp add: addActor_def)

lemma dacl_sids_addActor:
  "dacl_sids E (addActor E sd sid) =
     (if sid \<in> set (dacl_sids E sd) then dacl_sids E sd else dacl_sids E sd @ [sid])"
  by (simp add: addActor_def dacl_sids_def create_allow_ace_def formatCanonical_fromCanonical)

subsection \<open>C1: when a write is sent\<close>

text \<open>
  C1 as stated: no request is sent when the re-encoded descriptor equals the fetched
  bytes, in particular when \<open>remove\<close> finds no ACE for the SID. In the directory
  \<open>demo_state\<close> the attribute of the target holds \<open>demo_raw\<close>, its descriptor has no ACE,
  and nothing has been sent; removing the SID of \<open>other$\<close> sends a request that replaces
  the attribute by the same bytes.
\<close>

theorem remove_without_match_writes_counterexample:
  "base_entry demo_state ''CN=SRV'' = Some demo_attrs \<and>
   demo_attrs ''msDS-KeyCredentialLink'' = [demo_raw] \<and>
   modifies demo_state = [] \<and>
   modifies (snd (remove (demo_env []) ''other$'' demo_state))
     = [(''CN=SRV'', ''msDS-AllowedToActOnBehalfOfOtherIdentity'', [demo_raw])]"
proof -
  have a1: "sam_index demo_state ''other$'' = Some (''CN=other'', ''S-1-5-21-1-2-3-1105'')"
    by (rule demo_state_simps)
  have a2: "sam_index demo_state (delegate_to demo_state) = Some (''CN=SRV'', ''S-1-5-21-1-2-3-1000'')"
    by (simp add: demo_state_simps)
  have a3: "fst (get_keycredentiallink (demo_env [])
              (demo_state\<lparr>delegate_from := ''other$'', SID_delegate_from := ''S-1-5-21-1-2-3-1105'',
                           DN_delegate_to := ''CN=SRV''\<rparr>))
            = Inr (Some (demo_sd [], \<lparr>entry_dn = ''CN=SRV'', raw_attributes = demo_attrs\<rparr>))"
    using demo_fetch [of "demo_state\<lparr>delegate_from := ''other$'',
        SID_delegate_from := ''S-1-5-21-1-2-3-1105'', DN_delegate_to := ''CN=SRV''\<rparr>" "[]"]
    by (simp add: demo_state_simps)
  show ?thesis
    using remove_modifies [OF a1 a2 a3]
    by (simp add: demo_state_simps demo_env_simps removeActor_def demo_sd_def demo_attrs_def
        attribute_name_def)
qed

text \<open>
  C1 (amended): when the account and the target are found and the descriptor is fetched,
  \<open>write\<close> sends no modify request if the SID is already among the canonical SIDs of the
  DACL, and logs that it does not modify the delegation rights; if the SID is not there
  it sends one request, with the descriptor extended by the new ACE. \<open>remove\<close> sends one
  request with the filtered descriptor under no condition, also when no ACE matches the
  SID and the descriptor is the fetched one; \<open>flush\<close> sends one request under no
  condition.
\<close>

theorem writes_of_the_edit_operations:
  assumes a1: "sam_index self from = Some (d1, sid)"
    and a2: "sam_index self (delegate_to self) = Some (d2, sid2)"
    and a3: "fst (get_keycredentiallink E
                (self\<lparr>delegate_from := from, SID_delegate_from := sid, DN_delegate_to := d2\<rparr>))
             = Inr (Some (sd, tu))"
    and a4: "fst (get_keycredentiallink E (self\<lparr>DN_delegate_to := d2\<rparr>)) = Inr (Some (sd', tu'))"
  shows "(sid \<in> set (dacl_sids E sd) \<longrightarrow>
            modifies (snd (write_action E from self)) = modifies self \<and>
            (INFO, ''Not modifying the delegation rights.'') \<in> set (logged (snd (write_action E from self)))) \<and>
         (sid \<notin> set (dacl_sids E sd) \<longrightarrow>
            modifies (snd (write_action E from self))
              = modifies self @ [(d2, attribute_name, [getData E (addActor E sd sid)])]) \<and>
         modifies (snd (remove E from self))
           = modifies self @ [(d2, attribute_name, [getData E (removeActor E sd sid)])] \<and>
         (sid \<notin> set (dacl_sids E sd) \<longrightarrow> removeActor E sd sid = sd) \<and>
         modifies (snd (flush E self)) = modifies self @ [(d2, attribute_name, [])]"
  using write_action_present [OF a1 a2 a3] write_action_absent [OF a1 a2 a3]
        remove_modifies [OF a1 a2 a3] flush_modifies [OF a2 a4]
        removeActor_no_match [of sid E sd]
  by blast

theorem writes_of_the_edit_operations_witness:
  "modifies (snd (write_action (demo_env [demo_ace]) ''evil$'' demo_state)) = [] \<and>
   (INFO, ''Not modifying the delegation rights.'')
     \<in> set (logged (snd (write_action (demo_env [demo_ace]) ''evil$'' demo_state))) \<and>
   modifies (snd (write_action (demo_env [demo_ace]) ''other$'' demo_state))
     = [(''CN=SRV'', attribute_name,
         [getData (demo_env [demo_ace])
            (addActor (demo_env [demo_ace]) (demo_sd [demo_ace]) ''S-1-5-21-1-2-3-1105'')])] \<and>
   modifies (snd (remove (demo_env [demo_ace]) ''other$'' demo_state))
     = [(''CN=SRV'', attribute_name, [getData (demo_env [demo_ace]) (demo_sd [demo_ace])])] \<and>
   modifies (snd (flush (demo_env [demo_ace]) demo_state)) = [(''CN=SRV'', attribute_name, [])]"
proof -
  have e: "sam_index demo_state ''evil$'' = Some (''CN=evil'', ''S-1-5-21-1-2-3-1104'')"
    and o: "sam_index demo_state ''other$'' = Some (''CN=other'', ''S-1-5-21-1-2-3-1105'')"
    by (rule demo_state_simps)+
  have a2: "sam_index demo_state (delegate_to demo_state) = Some (''CN=SRV'', ''S-1-5-21-1-2-3-1000'')"
    by (simp add: demo_state_simps)
  have r: "\<forall>ace\<in>set [demo_ace].
             sid_index demo_state (formatCanonical (demo_env [demo_ace]) (Sid ace)) \<noteq> None"
    by (simp add: demo_state_simps demo_ace_def demo_env_simps)
  have f: "fst (get_keycredentiallink (demo_env [demo_ace])
              (demo_state\<lparr>delegate_from := n, SID_delegate_from := sid, DN_delegate_to := ''CN=SRV''\<rparr>))
            = Inr (Some (demo_sd [demo_ace], \<lparr>entry_dn = ''CN=SRV'', raw_attributes = demo_attrs\<rparr>))"
    for n sid
    using r demo_fetch [of "demo_state\<lparr>delegate_from := n, SID_delegate_from := sid,
        DN_delegate_to := ''CN=SRV''\<rparr>" "[demo_ace]"]
    by (simp add: demo_state_simps)
  have f': "fst (get_keycredentiallink (demo_env [demo_ace]) (demo_state\<lparr>DN_delegate_to := ''CN=SRV''\<rparr>))
            = Inr (Some (demo_sd [demo_ace], \<lparr>entry_dn = ''CN=SRV'', raw_attributes = demo_attrs\<rparr>))"
    using r demo_fetch [of "demo_state\<lparr>DN_delegate_to := ''CN=SRV''\<rparr>" "[demo_ace]"]
    by (simp add: demo_state_simps)
  have p: "''S-1-5-21-1-2-3-1104'' \<in> set (dacl_sids (demo_env [demo_ace]) (demo_sd [demo_ace]))"
    and q: "''S-1-5-21-1-2-3-1105'' \<notin> set (dacl_sids (demo_env [demo_ace]) (demo_sd [demo_ace]))"
    by (simp_all add: dacl_sids_def demo_env_simps demo_sd_def demo_ace_def)
  show ?thesis
    using writes_of_the_edit_operations [OF e a2 f f'] writes_of_the_edit_operations [OF o a2 f f'] p q
    by (simp add: demo_state_simps)
qed

subsection \<open>C2: flush\<close>

text \<open>
  C2 as stated: clearing produces a descriptor with an empty DACL and the owner, group
  and control of the fetched one. \<open>flush\<close> builds no descriptor: the request it sends
  carries no value at all, not the encoding of the fetched descriptor with its DACL
  emptied.
\<close>

theorem flush_sends_no_descriptor_counterexample:
  "modifies (snd (flush (demo_env [demo_ace]) demo_state))
     = [(''CN=SRV'', ''msDS-AllowedToActOnBehalfOfOtherIdentity'', [])] \<and>
   modifies (snd (flush (demo_env [demo_ace]) demo_state))
     \<noteq> [(''CN=SRV'', ''msDS-AllowedToActOnBehalfOfOtherIdentity'',
          [getData (demo_env [demo_ace]) ((demo_sd [demo_ace])\<lparr>Dacl := []\<rparr>)])]"
proof -
  have a2: "sam_index demo_state (delegate_to demo_state) = Some (''CN=SRV'', ''S-1-5-21-1-2-3-1000'')"
    by (simp add: demo_state_simps)
  have f': "fst (get_keycredentiallink (demo_env [demo_ace]) (demo_state\<lparr>DN_delegate_to := ''CN=SRV''\<rparr>))
            = Inr (Some (demo_sd [demo_ace], \<lparr>entry_dn = ''CN=SRV'', raw_attributes = demo_attrs\<rparr>))"
    using demo_fetch [of "demo_state\<lparr>DN_delegate_to := ''CN=SRV''\<rparr>" "[demo_ace]"]
    by (simp add: demo_state_simps demo_ace_def demo_env_simps)
  show ?thesis
    using flush_modifies [OF a2 f'] by (simp add: demo_state_simps attribute_name_def)
qed

text \<open>
  C2 (amended): when the target is found and its descriptor fetched, \<open>flush\<close> sends one
  request that replaces the attribute by the empty list of values, whatever the fetched
  descriptor holds, so no owner, group or control is written back. When the server accepts
  the request the attribute has no value afterwards, and a second \<open>flush\<close> leaves the
  directory as the first one left it.
\<close>

theorem flush_replaces_by_no_value:
  assumes a2: "sam_index self (delegate_to self) = Some (d2, sid2)"
    and a4: "fst (get_keycredentiallink E (self\<lparr>DN_delegate_to := d2\<rparr>)) = Inr (Some (sd, tu))"
  shows "modifies (snd (flush E self)) = modifies self @ [(d2, attribute_name, [])] \<and>
         (fst (accept self d2 attribute_name []) = 0 \<longrightarrow>
            base_entry (snd (flush E self)) = cleared d2 (base_entry self) \<and>
            base_entry (snd (flush E (snd (flush E self)))) = base_entry (snd (flush E self)))"
proof (intro conjI impI)
  show "modifies (snd (flush E self)) = modifies self @ [(d2, attribute_name, [])]"
    by (rule flush_modifies [OF a2 a4])
next
  assume acc: "fst (accept self d2 attribute_name []) = 0"
  let ?t = "self\<lparr>DN_delegate_to := d2\<rparr>"
  from a4 obtain self2 where g: "get_keycredentiallink E ?t = (Inr (Some (sd, tu)), self2)"
    and ol: "only_logged ?t self2" and tu: "entry_dn tu = DN_delegate_to ?t"
    by (rule fetched_state)
  have f2: "base_entry self2 = base_entry self" "accept self2 = accept self"
    using only_logged_fields [OF ol] by simp_all
  show b1: "base_entry (snd (flush E self)) = cleared d2 (base_entry self)"
    using f2 tu acc by (simp add: flush_unfold [OF a2 g] base_entry_modify)
  let ?s1 = "snd (flush E self)"
  have fr: "sam_index ?s1 = sam_index self" "delegate_to ?s1 = delegate_to self"
    using flush_frame [of E self] by simp_all
  from flush_base_entry [of E ?s1]
  show "base_entry (snd (flush E ?s1)) = base_entry ?s1"
  proof
    assume "base_entry (snd (flush E ?s1)) = base_entry ?s1"
    then show ?thesis .
  next
    assume "\<exists>d x. sam_index ?s1 (delegate_to ?s1) = Some (d, x) \<and>
          base_entry (snd (flush E ?s1)) = cleared d (base_entry ?s1)"
    then obtain d x where "sam_index ?s1 (delegate_to ?s1) = Some (d, x)"
      and c: "base_entry (snd (flush E ?s1)) = cleared d (base_entry ?s1)" by blast
    then have "d = d2" using fr a2 by simp
    with c b1 show ?thesis by (simp add: cleared_idem)
  qed
qed

theorem flush_replaces_by_no_value_witness:
  "modifies (snd (flush (demo_env [demo_ace]) demo_state)) = [(''CN=SRV'', attribute_name, [])] \<and>
   base_entry (snd (flush (demo_env [demo_ace]) demo_state)) = cleared ''CN=SRV'' (base_entry demo_state) \<and>
   base_entry (snd (flush (demo_env [demo_ace]) (snd (flush (demo_env [demo_ace]) demo_state))))
     = base_entry (snd (flush (demo_env [demo_ace]) demo_state))"
proof -
  have a2: "sam_index demo_state (delegate_to demo_state) = Some (''CN=SRV'', ''S-1-5-21-1-2-3-1000'')"
    by (simp add: demo_state_simps)
  have f': "fst (get_keycredentiallink (demo_env [demo_ace]) (demo_state\<lparr>DN_delegate_to := ''CN=SRV''\<rparr>))
            = Inr (Some (demo_sd [demo_ace], \<lparr>entry_dn = ''CN=SRV'', raw_attributes = demo_attrs\<rparr>))"
    using demo_fetch [of "demo_state\<lparr>DN_delegate_to := ''CN=SRV''\<rparr>" "[demo_ace]"]
    by (simp add: demo_state_simps demo_ace_def demo_env_simps)
  have acc: "fst (accept demo_state ''CN=SRV'' attribute_name []) = 0"
    by (simp add: demo_state_simps)
  show ?thesis
    using flush_replaces_by_no_value [OF a2 f'] acc by (simp add: demo_state_simps)
qed

subsection \<open>C3: adding an actor\<close>

text \<open>
  C3: if no ACE of the DACL has the canonical SID string \<open>sid\<close>, adding it appends exactly
  one access-allowed ACE for \<open>sid\<close> (an ACE whose SID has the canonical string \<open>sid\<close>) at
  the end of the DACL, and \<open>write\<close> sends the descriptor so extended; otherwise the
  descriptor is unchanged. Consequently adding the same SID twice is the same as adding it
  once.
\<close>

theorem addActor_appends_once:
  "(sid \<notin> set (dacl_sids E sd) \<longrightarrow>
      addActor E sd sid = sd\<lparr>Dacl := Dacl sd @ [create_allow_ace E sid]\<rparr> \<and>
      AceType (create_allow_ace E sid) = ACCESS_ALLOWED_ACE \<and>
      formatCanonical E (Sid (create_allow_ace E sid)) = sid \<and>
      dacl_sids E (addActor E sd sid) = dacl_sids E sd @ [sid]) \<and>
   (sid \<in> set (dacl_sids E sd) \<longrightarrow> addActor E sd sid = sd) \<and>
   addActor E (addActor E sd sid) sid = addActor E sd sid \<and>
   (sam_index self acct = Some (d1, sid) \<and>
    sam_index self (delegate_to self) = Some (d2, sid2) \<and>
    fst (get_keycredentiallink E
          (self\<lparr>delegate_from := acct, SID_delegate_from := sid, DN_delegate_to := d2\<rparr>))
      = Inr (Some (sd, tu)) \<and>
    sid \<notin> set (dacl_sids E sd) \<longrightarrow>
      modifies (snd (write_action E acct self))
        = modifies self @
          [(d2, attribute_name, [getData E (sd\<lparr>Dacl := Dacl sd @ [create_allow_ace E sid]\<rparr>)])])"
proof (intro conjI impI)
  assume a: "sid \<notin> set (dacl_sids E sd)"
  show "addActor E sd sid = sd\<lparr>Dacl := Dacl sd @ [create_allow_ace E sid]\<rparr>"
    using a by (rule addActor_absent)
  show "dacl_sids E (addActor E sd sid) = dacl_sids E sd @ [sid]"
    using a by (simp add: dacl_sids_addActor)
next
  show "AceType (create_allow_ace E sid) = ACCESS_ALLOWED_ACE"
    by (simp add: create_allow_ace_def)
  show "formatCanonical E (Sid (create_allow_ace E sid)) = sid"
    by (simp add: create_allow_ace_def formatCanonical_fromCanonical)
next
  assume "sid \<in> set (dacl_sids E sd)"
  then show "addActor E sd sid = sd" by (simp add: addActor_def)
next
  have "sid \<in> set (dacl_sids E (addActor E sd sid))"
    by (simp add: dacl_sids_addActor)
  then show "addActor E (addActor E sd sid) sid = addActor E sd sid"
    by (simp add: addActor_def [of E "addActor E sd sid"])
next
  assume h: "sam_index self acct = Some (d1, sid) \<and>
    sam_index self (delegate_to self) = Some (d2, sid2) \<and>
    fst (get_keycredentiallink E
          (self\<lparr>delegate_from := acct, SID_delegate_from := sid, DN_delegate_to := d2\<rparr>))
      = Inr (Some (sd, tu)) \<and>
    sid \<notin> set (dacl_sids E sd)"
  then have a1: "sam_index self acct = Some (d1, sid)"
    and a2: "sam_index self (delegate_to self) = Some (d2, sid2)"
    and a3: "fst (get_keycredentiallink E
          (self\<lparr>delegate_from := acct, SID_delegate_from := sid, DN_delegate_to := d2\<rparr>))
      = Inr (Some (sd, tu))"
    and a4: "sid \<notin> set (dacl_sids E sd)"
    by simp_all
  show "modifies (snd (write_action E acct self))
        = modifies self @
          [(d2, attribute_name, [getData E (sd\<lparr>Dacl := Dacl sd @ [create_allow_ace E sid]\<rparr>)])]"
    using write_action_absent [OF a1 a2 a3 a4] a4 by (simp add: addActor_def)
qed

theorem addActor_appends_once_witness:
  "addActor (demo_env []) (demo_sd [demo_ace2, demo_ace]) ''S-1-5-21-1-2-3-1105''
     = demo_sd [demo_ace2, demo_ace,
                \<lparr> AceType = ACCESS_ALLOWED_ACE, AceFlags = 0, Mask = 983551,
                  Sid = Parsed ''S-1-5-21-1-2-3-1105'' \<rparr>] \<and>
   addActor (demo_env []) (demo_sd [demo_ace2, demo_ace]) ''S-1-5-21-1-2-3-1106''
     = demo_sd [demo_ace2, demo_ace] \<and>
   addActor (demo_env [])
      (addActor (demo_env []) (demo_sd [demo_ace2, demo_ace]) ''S-1-5-21-1-2-3-1105'')
      ''S-1-5-21-1-2-3-1105''
     = addActor (demo_env []) (demo_sd [demo_ace2, demo_ace]) ''S-1-5-21-1-2-3-1105'' \<and>
   modifies (snd (write_action (demo_env [demo_ace]) ''other$'' demo_state))
     = [(''CN=SRV'', attribute_name,
         [getData (demo_env [demo_ace])
            (demo_sd [demo_ace, \<lparr> AceType = ACCESS_ALLOWED_ACE, AceFlags = 0, Mask = 983551,
                                  Sid = Parsed ''S-1-5-21-1-2-3-1105'' \<rparr>])])]"
proof -
  have n: "''S-1-5-21-1-2-3-1105'' \<notin> set (dacl_sids (demo_env []) (demo_sd [demo_ace2, demo_ace]))"
    and y: "''S-1-5-21-1-2-3-1106'' \<in> set (dacl_sids (demo_env []) (demo_sd [demo_ace2, demo_ace]))"
    by (simp_all add: dacl_sids_def demo_sd_def demo_ace_def demo_ace2_def demo_env_simps)
  have o: "sam_index demo_state ''other$'' = Some (''CN=other'', ''S-1-5-21-1-2-3-1105'')"
    by (rule demo_state_simps)
  have a2: "sam_index demo_state (delegate_to demo_state) = Some (''CN=SRV'', ''S-1-5-21-1-2-3-1000'')"
    by (simp add: demo_state_simps)
  have f: "fst (get_keycredentiallink (demo_env [demo_ace])
              (demo_state\<lparr>delegate_from := ''other$'', SID_delegate_from := ''S-1-5-21-1-2-3-1105'',
                           DN_delegate_to := ''CN=SRV''\<rparr>))
            = Inr (Some (demo_sd [demo_ace], \<lparr>entry_dn = ''CN=SRV'', raw_attributes = demo_attrs\<rparr>))"
    using demo_fetch [of "demo_state\<lparr>delegate_from := ''other$'',
        SID_delegate_from := ''S-1-5-21-1-2-3-1105'', DN_delegate_to := ''CN=SRV''\<rparr>" "[demo_ace]"]
    by (simp add: demo_state_simps demo_ace_def demo_env_simps)
  have q: "''S-1-5-21-1-2-3-1105'' \<notin> set (dacl_sids (demo_env [demo_ace]) (demo_sd [demo_ace]))"
    by (simp add: dacl_sids_def demo_sd_def demo_ace_def demo_env_simps)
  note t1 = addActor_appends_once [where sid = "''S-1-5-21-1-2-3-1105''" and E = "demo_env []"
      and sd = "demo_sd [demo_ace2, demo_ace]" and self = demo_state and acct = "''other$''"
      and ?d1.0 = "''CN=other''" and ?d2.0 = "''CN=SRV''" and ?sid2.0 = "''S-1-5-21-1-2-3-1000''"
      and tu = "\<lparr>entry_dn = ''CN=SRV'', raw_attributes = demo_attrs\<rparr>"]
  note t2 = addActor_appends_once [where sid = "''S-1-5-21-1-2-3-1106''" and E = "demo_env []"
      and sd = "demo_sd [demo_ace2, demo_ace]" and self = demo_state and acct = "''other$''"
      and ?d1.0 = "''CN=other''" and ?d2.0 = "''CN=SRV''" and ?sid2.0 = "''S-1-5-21-1-2-3-1000''"
      and tu = "\<lparr>entry_dn = ''CN=SRV'', raw_attributes = demo_attrs\<rparr>"]
  note t3 = addActor_appends_once [where sid = "''S-1-5-21-1-2-3-1105''" and E = "demo_env [demo_ace]"
      and sd = "demo_sd [demo_ace]" and self = demo_state and acct = "''other$''"
      and ?d1.0 = "''CN=other''" and ?d2.0 = "''CN=SRV''" and ?sid2.0 = "''S-1-5-21-1-2-3-1000''"
      and tu = "\<lparr>entry_dn = ''CN=SRV'', raw_attributes = demo_attrs\<rparr>"]
  have c1: "addActor (demo_env []) (demo_sd [demo_ace2, demo_ace]) ''S-1-5-21-1-2-3-1105''
     = demo_sd [demo_ace2, demo_ace,
                \<lparr> AceType = ACCESS_ALLOWED_ACE, AceFlags = 0, Mask = 983551,
                  Sid = Parsed ''S-1-5-21-1-2-3-1105'' \<rparr>]"
    using t1 n by (simp add: demo_sd_def create_allow_ace_def demo_env_simps)
  have c2: "addActor (demo_env []) (demo_sd [demo_ace2, demo_ace]) ''S-1-5-21-1-2-3-1106''
     = demo_sd [demo_ace2, demo_ace]"
    using t2 y by simp
  have c3: "addActor (demo_env [])
      (addActor (demo_env []) (demo_sd [demo_ace2, demo_ace]) ''S-1-5-21-1-2-3-1105'')
      ''S-1-5-21-1-2-3-1105''
     = addActor (demo_env []) (demo_sd [demo_ace2, demo_ace]) ''S-1-5-21-1-2-3-1105''"
    using t1 by simp
  have c4: "modifies (snd (write_action (demo_env [demo_ace]) ''other$'' demo_state))
     = [(''CN=SRV'', attribute_name,
         [getData (demo_env [demo_ace])
            (demo_sd [demo_ace, \<lparr> AceType = ACCESS_ALLOWED_ACE, AceFlags = 0, Mask = 983551,
                                  Sid = Parsed ''S-1-5-21-1-2-3-1105'' \<rparr>])])]"
  proof -
    from t3 o a2 f q
    have "modifies (snd (write_action (demo_env [demo_ace]) ''other$'' demo_state))
        = modifies demo_state @
          [(''CN=SRV'', attribute_name,
            [getData (demo_env [demo_ace])
               ((demo_sd [demo_ace])\<lparr>Dacl := Dacl (demo_sd [demo_ace])
                   @ [create_allow_ace (demo_env [demo_ace]) ''S-1-5-21-1-2-3-1105'']\<rparr>)])]"
      by blast
    then show ?thesis
      by (simp add: demo_state_simps demo_sd_def create_allow_ace_def demo_env_simps(4,6))
  qed
  from c1 c2 c3 c4 show ?thesis by blast
qed

subsection \<open>C4: the attribute is absent\<close>

text \<open>
  C4: when the entry has no value for \<open>msDS-KeyCredentialLink\<close>, the fetch does not fail:
  the IndexError of \<open>raw_attributes[...][0]\<close> is caught, \<open>get_keycredentiallink\<close> logs that
  the attribute is empty and returns the descriptor of \<open>create_empty_sd\<close>, whose DACL is
  empty; adding a SID to it gives a DACL of exactly the one new ACE.
\<close>

theorem absent_attribute_gives_empty_descriptor:
  assumes "base_entry self (DN_delegate_to self) = Some attrs"
    and "attrs ''msDS-KeyCredentialLink'' = []"
  shows "get_keycredentiallink E self =
           (Inr (Some (create_empty_sd E,
                       \<lparr>entry_dn = DN_delegate_to self, raw_attributes = attrs\<rparr>)),
            logging INFO ''Attribute msDS-KeyCredentialLink is empty'' self) \<and>
         Dacl (create_empty_sd E) = [] \<and>
         Dacl (addActor E (create_empty_sd E) sid) = [create_allow_ace E sid]"
  using assms
  by (simp add: get_keycredentiallink_def try_keycredentiallink_def index_def Let_def
      create_empty_sd_def addActor_def dacl_sids_def)

theorem absent_attribute_gives_empty_descriptor_witness:
  "fst (get_keycredentiallink (demo_env [])
          (demo_state\<lparr>DN_delegate_to := ''CN=SRV'',
                       base_entry := (\<lambda>d. if d = ''CN=SRV'' then Some (\<lambda>a. []) else None)\<rparr>))
     = Inr (Some (create_empty_sd (demo_env []),
                  \<lparr>entry_dn = ''CN=SRV'', raw_attributes = (\<lambda>a. [])\<rparr>)) \<and>
   Dacl (addActor (demo_env []) (create_empty_sd (demo_env [])) ''S-1-5-21-1-2-3-1104'') = [demo_ace]"
  using absent_attribute_gives_empty_descriptor
          [of "demo_state\<lparr>DN_delegate_to := ''CN=SRV'',
                       base_entry := (\<lambda>d. if d = ''CN=SRV'' then Some (\<lambda>a. []) else None)\<rparr>"
              "\<lambda>a. []" "demo_env []" "''S-1-5-21-1-2-3-1104''"]
  by (simp add: create_allow_ace_def demo_ace_def demo_env_simps)


subsection \<open>C8: listing the actors\<close>

text \<open>
  C8: a SID of the DACL that the directory cannot resolve should be listed without a
  name, and the listing should go on. \<open>get_sid_info\<close> returns \<open>False\<close> for such a SID and
  line 586 subscripts the result, so \<open>get_keycredentiallink\<close> raises TypeError, which its
  \<open>except IndexError\<close> does not catch: the listing is aborted.
\<close>

theorem unresolvable_sid_aborts_listing:
  assumes "base_entry self (DN_delegate_to self) = Some attrs"
    and "attrs ''msDS-KeyCredentialLink'' = raw # rest"
    and "DN_binary_KeyCredentialLink (py E) raw = Inr k"
    and "sd_from_bytes E raw = Inr sd"
    and "ace \<in> set (Dacl sd)"
    and "sid_index self (formatCanonical E (Sid ace)) = None"
  shows "fst (get_keycredentiallink E self) = Inl TypeError"
proof -
  have "\<not> (\<forall>ace\<in>set (Dacl sd). sid_index self (formatCanonical E (Sid ace)) \<noteq> None)"
    using assms(5,6) by blast
  then show ?thesis
    by (simp only: get_keycredentiallink_fst [OF assms(1-4)] if_False)
qed

theorem unresolvable_sid_aborts_listing_witness:
  "fst (get_keycredentiallink (demo_env [demo_ace])
          (demo_state\<lparr>DN_delegate_to := ''CN=SRV'', sid_index := (\<lambda>sid. None)\<rparr>))
   = Inl TypeError"
proof (rule unresolvable_sid_aborts_listing [where ace = demo_ace])
  show "base_entry (demo_state\<lparr>DN_delegate_to := ''CN=SRV'', sid_index := (\<lambda>sid. None)\<rparr>)
          (DN_delegate_to (demo_state\<lparr>DN_delegate_to := ''CN=SRV'', sid_index := (\<lambda>sid. None)\<rparr>))
        = Some demo_attrs"
    by (simp add: demo_state_def)
  show "demo_attrs ''msDS-KeyCredentialLink'' = demo_raw # []"
    by (simp add: demo_attrs_def)
  show "DN_binary_KeyCredentialLink (py (demo_env [demo_ace])) demo_raw
     = Inr (new_KeyCredentialLink [0x43, 0x4e, 0x3d, 0x78] 0x200)"
    by (rule demo_kcl)
  show "sd_from_bytes (demo_env [demo_ace]) demo_raw = Inr (demo_sd [demo_ace])"
    by (rule demo_env_simps)
  show "demo_ace \<in> set (Dacl (demo_sd [demo_ace]))"
    by (simp add: demo_sd_def)
  show "sid_index (demo_state\<lparr>DN_delegate_to := ''CN=SRV'', sid_index := (\<lambda>sid. None)\<rparr>)
          (formatCanonical (demo_env [demo_ace]) (Sid demo_ace)) = None"
    by simp
qed

end
